theory Spec2Isabelle
  imports Main "HOL-Library.Sublist" "HOL-Library.List_Lexorder" "HOL-Library.Char_ord"
begin

section \<open>Python strings and paths\<close>

text \<open>
  Strings are \<^typ>\<open>string\<close>. The helpers below are the Python built-ins the two modules
  use on them (\<^verbatim>\<open>str.strip\<close>, \<^verbatim>\<open>str.index\<close>, slicing, \<^verbatim>\<open>str.split\<close>,
  \<^verbatim>\<open>str.endswith\<close>) and the functions of \<^verbatim>\<open>os.path\<close> (POSIX flavour). White space is
  the white space of ASCII.
\<close>

definition is_space :: "char \<Rightarrow> bool" where
  "is_space c = (c \<in> set [CHR '' '', CHR 0x09, CHR 0x0A, CHR 0x0B, CHR 0x0C, CHR 0x0D,
                            CHR 0x1C, CHR 0x1D, CHR 0x1E, CHR 0x1F])"

definition py_strip :: "string \<Rightarrow> string" where
  "py_strip s = rev (dropWhile is_space (rev (dropWhile is_space s)))"

text \<open>\<^verbatim>\<open>s.index(c)\<close>: the position of the first \<open>c\<close>, \<^verbatim>\<open>ValueError\<close> (here \<open>None\<close>) without one.\<close>

definition py_index :: "string \<Rightarrow> char \<Rightarrow> nat option" where
  "py_index s c = (if c \<in> set s then Some (length (takeWhile (\<lambda>x. x \<noteq> c) s)) else None)"

text \<open>\<^verbatim>\<open>s[a:b]\<close>: a negative bound counts from the end, every bound is clamped to the string.\<close>

definition py_bound :: "nat \<Rightarrow> int \<Rightarrow> nat" where
  "py_bound n i = (if i < 0 then nat (max 0 (int n + i)) else min n (nat i))"

definition py_slice :: "string \<Rightarrow> int \<Rightarrow> int \<Rightarrow> string" where
  "py_slice s a b = take (py_bound (length s) b - py_bound (length s) a) (drop (py_bound (length s) a) s)"

text \<open>
  \<^verbatim>\<open>s.split(sep)\<close> for a non-empty separator. The counter is the number of characters of a
  separator just matched that are still to be skipped.
\<close>

fun split_aux :: "string \<Rightarrow> nat \<Rightarrow> string \<Rightarrow> string \<Rightarrow> string list" where
  "split_aux sep k acc [] = [rev acc]"
| "split_aux sep (Suc k) acc (c # cs) = split_aux sep k acc cs"
| "split_aux sep 0 acc (c # cs) =
     (if prefix sep (c # cs) then rev acc # split_aux sep (length sep - 1) [] cs
      else split_aux sep 0 (c # acc) cs)"

definition py_split :: "string \<Rightarrow> string \<Rightarrow> string list" where
  "py_split s sep = split_aux sep 0 [] s"

definition endswith :: "string \<Rightarrow> string \<Rightarrow> bool" where
  "endswith s suf = suffix suf s"

definition path_join :: "string \<Rightarrow> string \<Rightarrow> string" where
  "path_join a b =
     (if b \<noteq> [] \<and> hd b = CHR ''/'' then b
      else if a = [] \<or> last a = CHR ''/'' then a @ b
      else a @ ''/'' @ b)"

definition path_basename :: "string \<Rightarrow> string" where
  "path_basename p = rev (takeWhile (\<lambda>c. c \<noteq> CHR ''/'') (rev p))"

text \<open>
  \<^verbatim>\<open>os.path.dirname\<close>: the part before the last slash, with trailing slashes removed unless
  it consists of slashes only.
\<close>

definition path_dirname :: "string \<Rightarrow> string" where
  "path_dirname p =
     (let head = rev (dropWhile (\<lambda>c. c \<noteq> CHR ''/'') (rev p))
      in if head \<noteq> [] \<and> (\<exists>c \<in> set head. c \<noteq> CHR ''/'')
         then rev (dropWhile (\<lambda>c. c = CHR ''/'') (rev head)) else head)"

section \<open>Checksum verification\<close>

text \<open>
  \<^verbatim>\<open>ArchiveFile\<close>: the pool-relative name, the declared size and the declared digests. A digest
  that was not declared is \<^verbatim>\<open>None\<close>. The size attribute holds what the caller assigns:
  the importer assigns the string of the control data, the repository reader an integer.
  \<^verbatim>\<open>_verify_hashes\<close> compares it with \<^verbatim>\<open>hash.hashvalue\<close>, a string, and in Python an
  integer never equals a string.
\<close>

datatype size_value = SizeStr string | SizeInt int

record archive_file =
  af_fname :: string
  af_size :: "size_value option"
  af_md5sum :: "string option"
  af_sha1sum :: "string option"
  af_sha256sum :: "string option"
  af_sha512sum :: "string option"

text \<open>
  The exceptions of the two modules. Every \<^verbatim>\<open>ArchiveImportError\<close> is one constructor per
  raise statement, carrying the values its message is formatted with, in the order of the
  \<^verbatim>\<open>format\<close> call. The others are the exceptions of the libraries underneath:
  a missing key of a control stanza, \<^verbatim>\<open>str.index\<close> and \<^verbatim>\<open>int\<close> on a bad string,
  SQLAlchemy's \<^verbatim>\<open>one\<close> and \<^verbatim>\<open>one_or_none\<close>, the file system, a failed
  \<^verbatim>\<open>apt-ftparchive\<close>, and the exceptions of the modules \<^verbatim>\<open>laniakea.archive.utils\<close> and
  \<^verbatim>\<open>laniakea.archive.changes\<close>.
\<close>

datatype error =
    UnknownHashType string
  | ChecksumFailed string string string
  | InsufficientHashes
  | VersionRegression string string
  | DestinationExists string
  | OrphanedBinary string string
  | MissingOverride string string
  | KeyError string
  | ValueError
  | NoResultFound
  | MultipleResultsFound
  | FileNotFoundError string
  | SameFileError string
  | InvalidBlock string
  | UploadException string string
  | SignatureError
  | MalformedIndex string
  | CalledProcessError string
  | InvalidChangesException string

text \<open>The message of the checksum failure, as \<^verbatim>\<open>_verify_hashes\<close> formats it.\<close>

definition checksum_failed_message :: "string \<Rightarrow> string \<Rightarrow> string \<Rightarrow> string" where
  "checksum_failed_message hashtype fname hashvalue =
     hashtype @ '' checksum validation of '' @ [CHR 0x22] @ fname @ [CHR 0x22]
       @ '' failed (expected '' @ hashvalue @ '').''"

text \<open>
  The \<^verbatim>\<open>if\<close>/\<^verbatim>\<open>elif\<close> chain of \<^verbatim>\<open>_verify_hashes\<close>: the comparison made for one computed
  hash, \<open>None\<close> for a hash type the chain does not know.
\<close>

definition hash_okay :: "archive_file \<Rightarrow> string \<Rightarrow> string \<Rightarrow> bool option" where
  "hash_okay file hashtype hashvalue =
     (if hashtype = ''MD5Sum'' then Some (af_md5sum file = Some hashvalue)
      else if hashtype = ''SHA1'' then Some (af_sha1sum file = Some hashvalue)
      else if hashtype = ''SHA256'' then Some (af_sha256sum file = Some hashvalue)
      else if hashtype = ''SHA512'' then Some (af_sha512sum file = Some hashvalue)
      else if hashtype = ''Checksum-FileSize'' then Some (af_size file = Some (SizeStr hashvalue))
      else None)"

text \<open>
  The loop over \<^verbatim>\<open>Hashes(f).hashes\<close>, the (type, value) pairs that APT computes from the
  local file. The last argument is \<^verbatim>\<open>hashes_checked\<close>.
\<close>

fun verify_loop :: "archive_file \<Rightarrow> (string \<times> string) list \<Rightarrow> nat \<Rightarrow> error + nat" where
  "verify_loop file [] checked = Inr checked"
| "verify_loop file ((hashtype, hashvalue) # hs) checked =
     (case hash_okay file hashtype hashvalue of
        None \<Rightarrow> Inl (UnknownHashType hashtype)
      | Some ok \<Rightarrow>
          if \<not> ok then Inl (ChecksumFailed hashtype (af_fname file) hashvalue)
          else verify_loop file hs (checked + 1))"

text \<open>
  \<^verbatim>\<open>_verify_hashes\<close>. The file system maps a path to the content of the file there;
  \<open>hashes\<close> is APT's \<^verbatim>\<open>Hashes\<close> on a content.
\<close>

definition verify_hashes ::
  "(string \<Rightarrow> (string \<times> string) list) \<Rightarrow> (string \<rightharpoonup> string) \<Rightarrow> archive_file \<Rightarrow> string
     \<Rightarrow> error + unit" where
  "verify_hashes hashes files file local_fname =
     (case files local_fname of
        None \<Rightarrow> Inl (FileNotFoundError local_fname)
      | Some content \<Rightarrow>
          (case verify_loop file (hashes content) 0 of
             Inl e \<Rightarrow> Inl e
           | Inr checked \<Rightarrow> if checked < 4 then Inl InsufficientHashes else Inr ()))"

section \<open>Control stanzas\<close>

text \<open>
  A control stanza (an \<^verbatim>\<open>apt_pkg.TagSection\<close>, or the \<^verbatim>\<open>Packages\<close> and \<^verbatim>\<open>Sources\<close>
  dictionaries of python-debian) is an association list from field names to values.
  \<open>stanza_item\<close> is \<^verbatim>\<open>e[key]\<close>, \<open>stanza_get\<close> is \<^verbatim>\<open>e.get(key)\<close>, \<open>stanza_pop\<close> is
  \<^verbatim>\<open>d.pop(key)\<close> and \<open>stanza_pop_default\<close> is \<^verbatim>\<open>d.pop(key, None)\<close>.
\<close>

type_synonym stanza = "(string \<times> string) list"

definition and_then :: "error + 'a \<Rightarrow> ('a \<Rightarrow> error + 'b) \<Rightarrow> error + 'b" where
  "and_then m f = (case m of Inl e \<Rightarrow> Inl e | Inr x \<Rightarrow> f x)"

definition stanza_get :: "stanza \<Rightarrow> string \<Rightarrow> string option" where
  "stanza_get e key = map_of e key"

definition stanza_item :: "stanza \<Rightarrow> string \<Rightarrow> error + string" where
  "stanza_item e key = (case map_of e key of None \<Rightarrow> Inl (KeyError key) | Some v \<Rightarrow> Inr v)"

definition stanza_remove :: "stanza \<Rightarrow> string \<Rightarrow> stanza" where
  "stanza_remove d key = filter (\<lambda>kv. fst kv \<noteq> key) d"

definition stanza_pop :: "stanza \<Rightarrow> string \<Rightarrow> error + (string \<times> stanza)" where
  "stanza_pop d key =
     (case map_of d key of None \<Rightarrow> Inl (KeyError key) | Some v \<Rightarrow> Inr (v, stanza_remove d key))"

definition stanza_pop_default :: "stanza \<Rightarrow> string \<Rightarrow> string option \<times> stanza" where
  "stanza_pop_default d key = (map_of d key, stanza_remove d key)"

text \<open>\<^verbatim>\<open>pop_split\<close> of the importer: an absent or empty value gives the empty list.\<close>

definition pop_split :: "stanza \<Rightarrow> string \<Rightarrow> string \<Rightarrow> string list \<times> stanza" where
  "pop_split d key s =
     (case map_of d key of
        None \<Rightarrow> ([], stanza_remove d key)
      | Some v \<Rightarrow> (if v = [] then [] else py_split v s, stanza_remove d key))"

section \<open>The Source field of a binary stanza\<close>

text \<open>
  The slices both parsers take from a Source value that contains an opening parenthesis:
  the name is \<^verbatim>\<open>s[0 : s.index('(') - 1].strip()\<close> and the version is
  \<^verbatim>\<open>s[s.index('(') + 1 : s.index(')')].strip()\<close>. The name is computed first; a value
  without a closing parenthesis raises \<^verbatim>\<open>ValueError\<close> at the version.
\<close>

text \<open>
  \<^verbatim>\<open>RepositoryReader._read_binary_packages_from_tf\<close>, the lines on \<^verbatim>\<open>source_id\<close>:
  the argument is \<^verbatim>\<open>e.get('Source')\<close>.
\<close>

definition reader_source :: "string option \<Rightarrow> string \<Rightarrow> string \<Rightarrow> error + (string \<times> string)" where
  "reader_source source_id name version =
     (case source_id of
        None \<Rightarrow> Inr (name, version)
      | Some sid \<Rightarrow>
          if sid = [] then Inr (name, version)
          else if CHR ''('' \<in> set sid then
            (case py_index sid (CHR ''('') of
               None \<Rightarrow> Inl ValueError
             | Some i \<Rightarrow>
                 let source_name = py_strip (py_slice sid 0 (int i - 1))
                 in (case py_index sid (CHR '')'') of
                       None \<Rightarrow> Inl ValueError
                     | Some j \<Rightarrow> Inr (source_name, py_strip (py_slice sid (int i + 1) (int j)))))
          else Inr (sid, version))"

text \<open>
  \<^verbatim>\<open>PackageImporter.import_binary\<close>, the lines on \<^verbatim>\<open>source_info_raw\<close>: the argument is
  \<^verbatim>\<open>bin_tf.pop('Source', '')\<close>.
\<close>

definition importer_source :: "string \<Rightarrow> string \<Rightarrow> string \<Rightarrow> error + (string \<times> string)" where
  "importer_source source_info_raw pkgname version =
     (if source_info_raw = [] then Inr (pkgname, version)
      else if CHR ''('' \<in> set source_info_raw then
        (case py_index source_info_raw (CHR ''('') of
           None \<Rightarrow> Inl ValueError
         | Some i \<Rightarrow>
             let source_name = py_strip (py_slice source_info_raw 0 (int i - 1))
             in (case py_index source_info_raw (CHR '')'') of
                   None \<Rightarrow> Inl ValueError
                 | Some j \<Rightarrow>
                     Inr (source_name, py_strip (py_slice source_info_raw (int i + 1) (int j)))))
      else Inr (source_info_raw, version))"

text \<open>The two parsers on a stanza: each reads the field its own way.\<close>

definition reader_source_of :: "stanza \<Rightarrow> string \<Rightarrow> string \<Rightarrow> error + (string \<times> string)" where
  "reader_source_of e name version = reader_source (stanza_get e ''Source'') name version"

definition importer_source_of :: "stanza \<Rightarrow> string \<Rightarrow> string \<Rightarrow> error + (string \<times> string)" where
  "importer_source_of bin_tf pkgname version =
     importer_source (case fst (stanza_pop_default bin_tf ''Source'') of None \<Rightarrow> [] | Some v \<Rightarrow> v)
       pkgname version"

text \<open>
  What the specification says of the Source field, in its words: an absent or empty field
  stands for the binary package's own name and version, \<open>name (version)\<close> gives both, a
  bare name takes the binary package's version. A name and a version are words without
  parentheses or surrounding white space.
\<close>

definition is_word :: "string \<Rightarrow> bool" where
  "is_word w = (CHR ''('' \<notin> set w \<and> CHR '')'' \<notin> set w \<and> py_strip w = w)"

inductive source_field_spec :: "string option \<Rightarrow> string \<Rightarrow> string \<Rightarrow> string \<times> string \<Rightarrow> bool" where
  absent: "source_field_spec None name version (name, version)"
| empty: "source_field_spec (Some []) name version (name, version)"
| both: "is_word sn \<Longrightarrow> is_word sv \<Longrightarrow>
         source_field_spec (Some (sn @ '' ('' @ sv @ '')'')) name version (sn, sv)"
| bare: "sn \<noteq> [] \<Longrightarrow> CHR ''('' \<notin> set sn \<Longrightarrow>
         source_field_spec (Some sn) name version (sn, version)"

section \<open>Reading a Packages index\<close>

datatype deb_type = DEB | UDEB

text \<open>
  What \<^verbatim>\<open>_read_binary_packages_from_tf\<close> uses and the sources do not hold: Python's
  \<^verbatim>\<open>int\<close> on a string (\<open>None\<close> for its \<^verbatim>\<open>ValueError\<close>), \<^verbatim>\<open>split_strip\<close> of
  \<^verbatim>\<open>laniakea.utils\<close> and \<^verbatim>\<open>PackagePriority.from_string\<close>. They are parameters.
\<close>

record 'p reader_env =
  py_int :: "string \<Rightarrow> int option"
  split_strip :: "string \<Rightarrow> string \<Rightarrow> string list"
  priority_from_string :: "string \<Rightarrow> error + 'p"

record 'p external_override =
  eo_section :: string
  eo_priority :: 'p
  eo_component :: string
  eo_essential :: bool

record 'p external_binary_package =
  ebp_name :: string
  ebp_version :: string
  ebp_deb_type :: deb_type
  ebp_component :: string
  ebp_suites :: "string list"
  ebp_architecture :: string
  ebp_maintainer :: string
  ebp_source_name :: string
  ebp_source_version :: string
  ebp_size_installed :: int
  ebp_depends :: "string list"
  ebp_pre_depends :: "string list"
  ebp_homepage :: "string option"
  ebp_override :: "'p external_override"
  ebp_description :: string
  ebp_description_md5 :: "string option"
  ebp_bin_file :: archive_file

text \<open>
  The two warnings the loop logs: the unexpected architecture (reader's name, package,
  version, declared and requested architecture) and the package without a file name
  (package, version, requested architecture).
\<close>

datatype warning =
    UnexpectedArchitecture string string string string string
  | NoFiles string string string

definition get_or :: "stanza \<Rightarrow> string \<Rightarrow> string \<Rightarrow> string" where
  "get_or e key d = (case map_of e key of None \<Rightarrow> d | Some v \<Rightarrow> v)"

definition int_of :: "'p reader_env \<Rightarrow> string \<Rightarrow> error + int" where
  "int_of env s = (case py_int env s of None \<Rightarrow> Inl ValueError | Some i \<Rightarrow> Inr i)"

text \<open>
  The body of the loop after the architecture checks: the package built from one stanza,
  every field read in the order of the code. The type of the package ends as the file name
  decides, whatever \<^verbatim>\<open>deb_type\<close> was passed. The list of suites is the class's one list,
  shared by all packages; it is given here as it is after the first call, the one suite.
\<close>

definition build_binary_package ::
  "'p reader_env \<Rightarrow> string \<Rightarrow> string \<Rightarrow> string \<Rightarrow> stanza \<Rightarrow> string \<Rightarrow> string
     \<Rightarrow> error + 'p external_binary_package" where
  "build_binary_package env suite component arch e pkgname pkgversion =
     and_then (stanza_item e ''Maintainer'') (\<lambda>maintainer.
     and_then (reader_source (stanza_get e ''Source'') pkgname pkgversion) (\<lambda>(source_name, source_version).
     and_then (int_of env (get_or e ''Installed-Size'' ''0'')) (\<lambda>size_installed.
     and_then (stanza_item e ''Section'') (\<lambda>section.
     and_then (stanza_item e ''Priority'') (\<lambda>priority_raw.
     and_then (priority_from_string env priority_raw) (\<lambda>priority.
     and_then (stanza_item e ''Description'') (\<lambda>description.
     and_then (stanza_item e ''Filename'') (\<lambda>filename.
     and_then (int_of env (get_or e ''Size'' ''0'')) (\<lambda>size.
     and_then (stanza_item e ''SHA256'') (\<lambda>sha256.
       Inr \<lparr>ebp_name = pkgname, ebp_version = pkgversion,
            ebp_deb_type = (if endswith filename ''.udeb'' then UDEB else DEB),
            ebp_component = component, ebp_suites = [suite], ebp_architecture = arch,
            ebp_maintainer = maintainer,
            ebp_source_name = source_name, ebp_source_version = source_version,
            ebp_size_installed = size_installed,
            ebp_depends = split_strip env (get_or e ''Depends'' []) '','',
            ebp_pre_depends = split_strip env (get_or e ''Pre-Depends'' []) '','',
            ebp_homepage = stanza_get e ''Homepage'',
            ebp_override = \<lparr>eo_section = section, eo_priority = priority,
                            eo_component = component,
                            eo_essential = (get_or e ''Essential'' ''no'' = ''yes'')\<rparr>,
            ebp_description = description,
            ebp_description_md5 = stanza_get e ''Description-md5'',
            ebp_bin_file = \<lparr>af_fname = filename, af_size = Some (SizeInt size),
                            af_md5sum = None, af_sha1sum = None, af_sha256sum = Some sha256,
                            af_sha512sum = None\<rparr>\<rparr>))))))))))"

text \<open>
  One turn of the loop of \<^verbatim>\<open>_read_binary_packages_from_tf\<close>: \<open>None\<close> is \<^verbatim>\<open>continue\<close>,
  otherwise the package and the warnings logged for it. \<open>rname\<close> is the reader's name,
  \<open>arch\<close> the name of the requested architecture.
\<close>

definition read_binary_stanza ::
  "'p reader_env \<Rightarrow> string \<Rightarrow> string \<Rightarrow> string \<Rightarrow> string \<Rightarrow> string \<Rightarrow> stanza
     \<Rightarrow> error + ('p external_binary_package \<times> warning list) option" where
  "read_binary_stanza env rname tf_fname suite component arch e =
     and_then (stanza_item e ''Package'') (\<lambda>pkgname.
     and_then (stanza_item e ''Version'') (\<lambda>pkgversion.
       if pkgname = [] \<or> pkgversion = [] then Inl (InvalidBlock tf_fname)
       else
         and_then (stanza_item e ''Architecture'') (\<lambda>arch_name.
           if \<not> (arch = ''all'') \<and> arch_name = ''all'' then Inr None
           else if arch_name \<noteq> arch \<and> arch = ''all'' \<and> arch_name \<noteq> ''all'' then Inr None
           else
             let warned = (if arch_name \<noteq> arch
                           then [UnexpectedArchitecture rname pkgname pkgversion arch_name arch]
                           else [])
             in and_then (build_binary_package env suite component arch e pkgname pkgversion) (\<lambda>pkg.
                  Inr (Some (pkg, warned @ (if af_fname (ebp_bin_file pkg) = []
                                            then [NoFiles (ebp_name pkg) (ebp_version pkg) arch]
                                            else [])))))))"

text \<open>
  The loop. An exception in one stanza ends the whole call; the result is the list of
  packages and the warnings logged, in order.
\<close>

fun read_binary_packages_from_tf ::
  "'p reader_env \<Rightarrow> string \<Rightarrow> stanza list \<Rightarrow> string \<Rightarrow> string \<Rightarrow> string \<Rightarrow> string
     \<Rightarrow> error + ('p external_binary_package list \<times> warning list)" where
  "read_binary_packages_from_tf env rname [] tf_fname suite component arch = Inr ([], [])"
| "read_binary_packages_from_tf env rname (e # tf) tf_fname suite component arch =
     (case read_binary_stanza env rname tf_fname suite component arch e of
        Inl err \<Rightarrow> Inl err
      | Inr None \<Rightarrow> read_binary_packages_from_tf env rname tf tf_fname suite component arch
      | Inr (Some (pkg, ws)) \<Rightarrow>
          (case read_binary_packages_from_tf env rname tf tf_fname suite component arch of
             Inl err \<Rightarrow> Inl err
           | Inr (pkgs, warns) \<Rightarrow> Inr (pkg # pkgs, ws @ warns)))"

section \<open>The archive: database and file system\<close>

datatype new_policy = DEFAULT | ALWAYS_NEW | NEVER_NEW

text \<open>
  Modelled from the spec: the declarations of the tables (\<^verbatim>\<open>laniakea.db\<close>) are not among
  the sources. The specification gives a source package the identity (repository, name,
  version), an override the key (repository suite, package name) and the version memory the
  key (repository, package name). The rows of \<^verbatim>\<open>SourcePackage\<close> are a map from the identity
  to the other attributes, and what refers to a source package (an entry of the NEW queue,
  a binary package) holds the identity. The attributes of the records are those the two
  modules read or assign.
\<close>

type_synonym pkg_key = "nat \<times> string \<times> string"

record package_info =
  pi_name :: string
  pi_section :: "string option"
  pi_priority :: "string option"
  pi_essential :: bool

record source_package =
  sp_suites :: "nat list"
  sp_component :: string
  sp_format_version :: string
  sp_architectures :: "string list"
  sp_maintainer :: string
  sp_uploaders :: "string list"
  sp_build_depends :: "string list"
  sp_build_depends_indep :: "string list"
  sp_build_conflicts :: "string list"
  sp_build_conflicts_indep :: "string list"
  sp_expected_binaries :: "package_info list"
  sp_directory :: string
  sp_files :: "archive_file list"
  sp_extra_data :: stanza

text \<open>The attributes of a \<^verbatim>\<open>SourcePackage\<close> just constructed.\<close>

definition new_source_package :: source_package where
  "new_source_package =
     \<lparr>sp_suites = [], sp_component = [], sp_format_version = [], sp_architectures = [],
      sp_maintainer = [], sp_uploaders = [], sp_build_depends = [], sp_build_depends_indep = [],
      sp_build_conflicts = [], sp_build_conflicts_indep = [], sp_expected_binaries = [],
      sp_directory = [], sp_files = [], sp_extra_data = []\<rparr>"

record override =
  ov_repo_suite_id :: nat
  ov_pkgname :: string
  ov_section :: "string option"
  ov_priority :: "string option"
  ov_essential :: bool

text \<open>
  A binary package. The ten relation attributes (depends, pre_depends, replaces, provides,
  recommends, suggests, enhances, conflicts, breaks, built_using) are one association list
  from the attribute's name to its value.
\<close>

record binary_package =
  bp_name :: string
  bp_version :: string
  bp_repo_id :: nat
  bp_architecture :: string
  bp_maintainer :: string
  bp_homepage :: "string option"
  bp_size_installed :: string
  bp_source :: pkg_key
  bp_description :: string
  bp_summary :: string
  bp_description_md5 :: string
  bp_override :: override
  bp_component :: string
  bp_contents :: "string list"
  bp_relations :: "(string \<times> string list) list"
  bp_multi_arch :: "string option"
  bp_suites :: "nat list"
  bp_extra_data :: stanza
  bp_file :: archive_file

text \<open>
  \<^verbatim>\<open>ArchiveRepoSuiteSettings\<close> with what it reaches of its repository and suite: the two
  directories are the values of \<^verbatim>\<open>repo.get_root_dir()\<close> and \<^verbatim>\<open>repo.get_new_queue_dir()\<close>.
  The flag \<^verbatim>\<open>changes_pending\<close>, the one attribute the importer writes, is in the state.
\<close>

record rss =
  rss_id :: nat
  rss_repo_id :: nat
  rss_repo_name :: string
  rss_suite_id :: nat
  rss_suite_name :: string
  rss_new_policy :: new_policy
  rss_root_dir :: string
  rss_new_queue_dir :: string

record uploader =
  up_email :: string
  up_pgp_fingerprints :: "string list"
  up_allow_source_uploads :: bool
  up_allow_binary_uploads :: bool
  up_always_review :: bool

text \<open>
  The state: the file system (regular files only, a path to its content; the directories
  that \<^verbatim>\<open>os.makedirs\<close> creates are not part of it) and the tables. The version memory has
  one row for a repository and package name, so it is a map; the other tables are lists of
  rows, queried by filtering.
\<close>

record state =
  fs :: "string \<rightharpoonup> string"
  version_memory :: "(nat \<times> string) \<rightharpoonup> string"
  source_packages :: "pkg_key \<rightharpoonup> source_package"
  queue_new :: "(nat \<times> pkg_key) list"
  archive_files :: "archive_file list"
  binary_packages :: "binary_package list"
  overrides :: "override list"
  changes_pending :: "nat \<Rightarrow> bool"
  components :: "string list"
  architectures :: "string list"
  suite_settings :: "rss list"
  uploaders :: "uploader list"

text \<open>SQLAlchemy's \<^verbatim>\<open>one_or_none\<close> and \<^verbatim>\<open>one\<close> on the rows a query selects.\<close>

definition one_or_none :: "'a list \<Rightarrow> error + 'a option" where
  "one_or_none rows =
     (case rows of [] \<Rightarrow> Inr None | [r] \<Rightarrow> Inr (Some r) | _ \<Rightarrow> Inl MultipleResultsFound)"

definition one :: "'a list \<Rightarrow> error + 'a" where
  "one rows =
     (case rows of [] \<Rightarrow> Inl NoResultFound | [r] \<Rightarrow> Inr r | _ \<Rightarrow> Inl MultipleResultsFound)"

text \<open>
  A source stanza as python-debian gives it: the single-valued fields, and the checksum
  fields (Files, Checksums-Sha1, Checksums-Sha256, Checksums-Sha512), each a list of
  entries (digest, size, name).
\<close>

type_synonym csum_entry = "string \<times> string \<times> string"

record sources =
  src_fields :: stanza
  src_sums :: "(string \<times> csum_entry list) list"

text \<open>
  What the importer uses and the sources do not hold, as parameters: APT's hashes of a
  content, the order of the version column (\<open>debversion\<close> maps a version string into a
  linear order, and the comparisons of the queries are those of its image),
  \<^verbatim>\<open>pool_dir_from_name\<close>, \<^verbatim>\<open>split_epoch\<close> and \<^verbatim>\<open>parse_package_list_str\<close> of
  \<^verbatim>\<open>laniakea.archive.utils\<close>, the MD5 of \<^verbatim>\<open>hashlib\<close>, the three renderings of
  \<^verbatim>\<open>apt-ftparchive\<close> (of a path and the content there, if any), and \<^verbatim>\<open>parse_changes\<close>.
\<close>

record changes_file =
  cf_fname :: string
  cf_component :: "string option"

record changes =
  ch_primary_fingerprint :: string
  ch_weak_signature :: bool
  ch_distributions :: "string list"
  ch_sourceful :: bool
  ch_source_name :: string
  ch_version :: "string option"
  ch_files :: "error + changes_file list"

record 'v env =
  apt_hashes :: "string \<Rightarrow> (string \<times> string) list"
  debversion :: "string \<Rightarrow> 'v"
  pool_dir_from_name :: "string \<Rightarrow> string"
  split_epoch :: "string \<Rightarrow> string \<times> string"
  parse_package_list_str :: "string \<Rightarrow> package_info list"
  md5_hexdigest :: "string \<Rightarrow> string"
  render_sources :: "string \<Rightarrow> string option \<Rightarrow> error + sources"
  render_packages :: "string \<Rightarrow> string option \<Rightarrow> error + stanza"
  render_contents :: "string \<Rightarrow> string option \<Rightarrow> error + string list"
  parse_changes :: "string \<Rightarrow> string option \<Rightarrow> error + changes"

section \<open>Helpers of the importer\<close>

text \<open>
  \<^verbatim>\<open>package_mark_published\<close>: the row of the repository and package name gets the version,
  whether it exists or is created.
\<close>

definition package_mark_published :: "state \<Rightarrow> rss \<Rightarrow> string \<Rightarrow> string \<Rightarrow> state" where
  "package_mark_published st r pkgname version =
     (case version_memory st (rss_repo_id r, pkgname) of
        Some vmem \<Rightarrow> st\<lparr>version_memory := (version_memory st)((rss_repo_id r, pkgname) \<mapsto> version)\<rparr>
      | None \<Rightarrow> st\<lparr>version_memory := (version_memory st)((rss_repo_id r, pkgname) \<mapsto> version)\<rparr>)"

text \<open>
  \<^verbatim>\<open>_copy_or_move\<close> on the file system: with \<open>override\<close> an existing destination is
  unlinked first; \<^verbatim>\<open>shutil.copy\<close> fails on a missing source and on a source that is the
  destination; the source is unlinked unless \<^verbatim>\<open>keep_source_packages\<close> is set.
\<close>

definition copy_or_move ::
  "bool \<Rightarrow> string \<Rightarrow> string \<Rightarrow> bool \<Rightarrow> (string \<rightharpoonup> string) \<Rightarrow> (error + unit) \<times> (string \<rightharpoonup> string)" where
  "copy_or_move keep src dst override files =
     (let files1 = (if override \<and> files dst \<noteq> None then files(dst := None) else files)
      in case files1 src of
           None \<Rightarrow> (Inl (FileNotFoundError src), files1)
         | Some content \<Rightarrow>
             if src = dst then (Inl (SameFileError src), files1)
             else let files2 = files1(dst \<mapsto> content)
                  in (Inr (), if keep then files2 else files2(src := None)))"

text \<open>
  Modelled from the spec: \<^verbatim>\<open>checksums_list_to_file\<close> of \<^verbatim>\<open>laniakea.archive.utils\<close>, which
  is not among the sources. The specification: the per-file checksum set is built by merging
  the independently declared checksum sections, keyed by file name; a section may be absent;
  a file missing from a present section is a malformed-index error. The set is an
  association list in the order of the first section.
\<close>

definition set_checksum :: "string \<Rightarrow> string \<Rightarrow> archive_file \<Rightarrow> archive_file" where
  "set_checksum kind digest f =
     (if kind = ''md5'' then f\<lparr>af_md5sum := Some digest\<rparr>
      else if kind = ''sha1'' then f\<lparr>af_sha1sum := Some digest\<rparr>
      else if kind = ''sha256'' then f\<lparr>af_sha256sum := Some digest\<rparr>
      else if kind = ''sha512'' then f\<lparr>af_sha512sum := Some digest\<rparr>
      else f)"

definition new_archive_file :: "string \<Rightarrow> archive_file" where
  "new_archive_file fname =
     \<lparr>af_fname = fname, af_size = None, af_md5sum = None, af_sha1sum = None,
      af_sha256sum = None, af_sha512sum = None\<rparr>"

definition merge_entry ::
  "string \<Rightarrow> (string \<times> archive_file) list \<Rightarrow> csum_entry \<Rightarrow> (string \<times> archive_file) list" where
  "merge_entry kind files entry =
     (case entry of (digest, sz, name) \<Rightarrow>
        (case map_of files name of
           None \<Rightarrow> files @ [(name, set_checksum kind digest
                                     ((new_archive_file name)\<lparr>af_size := Some (SizeStr sz)\<rparr>))]
         | Some f \<Rightarrow>
             map (\<lambda>(n, g). if n = name
                           then (n, set_checksum kind digest (g\<lparr>af_size := Some (SizeStr sz)\<rparr>))
                           else (n, g)) files))"

definition checksums_list_to_file ::
  "csum_entry list option \<Rightarrow> string \<Rightarrow> (string \<times> archive_file) list
     \<Rightarrow> error + (string \<times> archive_file) list" where
  "checksums_list_to_file cslist kind files =
     (case cslist of
        None \<Rightarrow> Inr files
      | Some entries \<Rightarrow>
          (case filter (\<lambda>(n, f). n \<notin> set (map (\<lambda>(digest, sz, name). name) entries)) files of
             [] \<Rightarrow> Inr (foldl (merge_entry kind) files entries)
           | (n, f) # rest \<Rightarrow> Inl (MalformedIndex n)))"

text \<open>
  Modelled from the spec: \<^verbatim>\<open>check_overrides_source\<close> and \<^verbatim>\<open>register_package_overrides\<close>
  of \<^verbatim>\<open>laniakea.archive.utils\<close>, which are not among the sources. The specification: the
  missing overrides are determined for the expected binaries of the source package, an
  override being keyed by repository suite and package name; under the policy that never
  queues, whatever overrides are missing are registered.
\<close>

definition has_override :: "state \<Rightarrow> rss \<Rightarrow> string \<Rightarrow> bool" where
  "has_override st r pkgname =
     (\<exists>ov \<in> set (overrides st). ov_repo_suite_id ov = rss_id r \<and> ov_pkgname ov = pkgname)"

definition check_overrides_source :: "state \<Rightarrow> rss \<Rightarrow> source_package \<Rightarrow> package_info list" where
  "check_overrides_source st r spkg =
     filter (\<lambda>b. \<not> has_override st r (pi_name b)) (sp_expected_binaries spkg)"

definition register_package_overrides :: "state \<Rightarrow> rss \<Rightarrow> package_info list \<Rightarrow> state" where
  "register_package_overrides st r missing =
     st\<lparr>overrides := overrides st @
          map (\<lambda>b. \<lparr>ov_repo_suite_id = rss_id r, ov_pkgname = pi_name b,
                    ov_section = pi_section b, ov_priority = pi_priority b,
                    ov_essential = pi_essential b\<rparr>) missing\<rparr>"

section \<open>Importing a source package\<close>

text \<open>
  The check of the version memory in \<^verbatim>\<open>import_source\<close>: the query selects the row of the
  repository and package name whose highest version is greater than the proposed one.
\<close>

definition version_check :: "('v::linorder) env \<Rightarrow> rss \<Rightarrow> state \<Rightarrow> string \<Rightarrow> string \<Rightarrow> error + unit" where
  "version_check env r st pkgname version =
     (case version_memory st (rss_repo_id r, pkgname) of
        None \<Rightarrow> Inr ()
      | Some highest \<Rightarrow>
          if debversion env highest > debversion env version
          then Inl (VersionRegression pkgname highest) else Inr ())"

text \<open>
  The query for the entry of the NEW queue with the destination suite whose package has
  the name, version and repository; both imports make it.
\<close>

definition new_queue_entry :: "rss \<Rightarrow> state \<Rightarrow> string \<Rightarrow> string \<Rightarrow> error + (nat \<times> pkg_key) option" where
  "new_queue_entry r st name version =
     one_or_none (filter (\<lambda>(dest, key). dest = rss_suite_id r \<and> key = (rss_repo_id r, name, version)
                                       \<and> source_packages st key \<noteq> None) (queue_new st))"

text \<open>The expected binaries: from Package-List, or bare stubs from Binary.\<close>

definition expected_binaries :: "'v env \<Rightarrow> stanza \<Rightarrow> error + (package_info list \<times> stanza)" where
  "expected_binaries env tf =
     (case map_of tf ''Package-List'' of
        Some raw \<Rightarrow>
          and_then (stanza_pop (stanza_remove tf ''Package-List'') ''Binary'') (\<lambda>(binary, tf1).
            Inr (parse_package_list_str env raw, tf1))
      | None \<Rightarrow>
          (let (names, tf1) = pop_split tf ''Binary'' '', ''
           in Inr (map (\<lambda>b. \<lparr>pi_name = b, pi_section = None, pi_priority = None,
                                pi_essential = False\<rparr>) names, tf1)))"

text \<open>The attributes taken from the stanza, from Format to the expected binaries.\<close>

definition source_fields ::
  "'v env \<Rightarrow> source_package \<Rightarrow> stanza \<Rightarrow> error + (source_package \<times> stanza)" where
  "source_fields env spkg tf =
     and_then (stanza_pop tf ''Format'') (\<lambda>(format_version, tf1).
       let (archs, tf2) = pop_split tf1 ''Architecture'' '' ''
       in and_then (stanza_pop tf2 ''Maintainer'') (\<lambda>(maintainer, tf3).
            let (upl, tf4) = pop_split tf3 ''Uploaders'' '', '';
                (bd, tf5) = pop_split tf4 ''Build-Depends'' '', '';
                (bdi, tf6) = pop_split tf5 ''Build-Depends-Indep'' '', '';
                (bc, tf7) = pop_split tf6 ''Build-Conflicts'' '', '';
                (bci, tf8) = pop_split tf7 ''Build-Conflicts-Indep'' '', ''
            in and_then (expected_binaries env tf8) (\<lambda>(binaries, tf9).
                 Inr (spkg\<lparr>sp_format_version := format_version, sp_architectures := archs,
                           sp_maintainer := maintainer, sp_uploaders := upl,
                           sp_build_depends := bd, sp_build_depends_indep := bdi,
                           sp_build_conflicts := bc, sp_build_conflicts_indep := bci,
                           sp_expected_binaries := binaries\<rparr>, tf9))))"

definition sums_pop :: "sources \<Rightarrow> string \<Rightarrow> error + csum_entry list" where
  "sums_pop src key =
     (case map_of (src_sums src) key of None \<Rightarrow> Inl (KeyError key) | Some v \<Rightarrow> Inr v)"

text \<open>
  The four calls of \<^verbatim>\<open>checksums_list_to_file\<close>: Files, Checksums-Sha1 and Checksums-Sha256
  are popped without a default, Checksums-Sha512 with the default \<^verbatim>\<open>None\<close>.
\<close>

definition source_files :: "sources \<Rightarrow> error + (string \<times> archive_file) list" where
  "source_files src =
     and_then (sums_pop src ''Files'') (\<lambda>md5.
     and_then (checksums_list_to_file (Some md5) ''md5'' []) (\<lambda>files1.
     and_then (sums_pop src ''Checksums-Sha1'') (\<lambda>sha1.
     and_then (checksums_list_to_file (Some sha1) ''sha1'' files1) (\<lambda>files2.
     and_then (sums_pop src ''Checksums-Sha256'') (\<lambda>sha256.
     and_then (checksums_list_to_file (Some sha256) ''sha256'' files2) (\<lambda>files3.
       checksums_list_to_file (map_of (src_sums src) ''Checksums-Sha512'') ''sha512'' files3))))))"

text \<open>
  What \<^verbatim>\<open>import_source\<close> has when it is done with the stanza, before it touches anything:
  name and version, the entry of the NEW queue if there is one, the package (the row of
  that entry, or a new package with its component), the files and the rest of the stanza.
\<close>

record source_head =
  sh_pkgname :: string
  sh_version :: string
  sh_nq_entry :: "(nat \<times> pkg_key) option"
  sh_spkg :: source_package
  sh_files :: "(string \<times> archive_file) list"
  sh_tf :: stanza

definition source_control ::
  "('v::linorder) env \<Rightarrow> rss \<Rightarrow> state \<Rightarrow> sources \<Rightarrow> string option \<Rightarrow> error + source_head" where
  "source_control env r st src component_name =
     and_then (stanza_pop (src_fields src) ''Package'') (\<lambda>(pkgname, tf1).
     and_then (stanza_pop tf1 ''Version'') (\<lambda>(version, tf2).
     and_then (version_check env r st pkgname version) (\<lambda>u.
     and_then (one (filter (\<lambda>c. Some c = component_name) (components st))) (\<lambda>component.
     and_then (new_queue_entry r st pkgname version) (\<lambda>nq_entry.
     and_then (source_fields env
                 (case nq_entry of
                    None \<Rightarrow> new_source_package\<lparr>sp_component := component\<rparr>
                  | Some (dest, key) \<Rightarrow>
                      (case source_packages st key of
                         None \<Rightarrow> new_source_package\<lparr>sp_component := component\<rparr>
                       | Some row \<Rightarrow> row)) tf2) (\<lambda>(spkg, tf3).
     and_then (source_files src) (\<lambda>files.
       Inr \<lparr>sh_pkgname = pkgname, sh_version = version, sh_nq_entry = nq_entry,
            sh_spkg = spkg\<lparr>sp_directory := pool_dir_from_name env pkgname\<rparr>,
            sh_files = files, sh_tf = tf3\<rparr>)))))))"

text \<open>
  The removal of the old files of a package that is updated in the NEW queue: each file
  is unlinked under the NEW-queue directory if it is there, its row is deleted, and the
  session is flushed with the package's list of files empty.
\<close>

definition drop_old_file :: "rss \<Rightarrow> state \<Rightarrow> archive_file \<Rightarrow> state" where
  "drop_old_file r st f =
     (let fname_full = path_join (rss_new_queue_dir r) (af_fname f)
      in st\<lparr>fs := (if fs st fname_full \<noteq> None then (fs st)(fname_full := None) else fs st),
            archive_files := remove1 f (archive_files st)\<rparr>)"

definition drop_old_files :: "rss \<Rightarrow> pkg_key \<Rightarrow> source_package \<Rightarrow> state \<Rightarrow> source_package \<times> state" where
  "drop_old_files r key spkg st =
     (if sp_files spkg = [] then (spkg, st)
      else let st1 = foldl (drop_old_file r) st (sp_files spkg);
               spkg1 = spkg\<lparr>sp_files := []\<rparr>
           in (spkg1, st1\<lparr>source_packages := (source_packages st1)(key \<mapsto> spkg1)\<rparr>))"

text \<open>
  The loop over \<^verbatim>\<open>files.values()\<close>: each file is verified at its place beside the .dsc,
  then takes its name in the pool. The result is \<^verbatim>\<open>files_todo\<close>.
\<close>

fun verify_files ::
  "'v env \<Rightarrow> (string \<rightharpoonup> string) \<Rightarrow> string \<Rightarrow> string \<Rightarrow> archive_file list \<Rightarrow> error + archive_file list" where
  "verify_files env files dsc_dir directory [] = Inr []"
| "verify_files env files dsc_dir directory (f # rest) =
     and_then (verify_hashes (apt_hashes env) files f (path_join dsc_dir (af_fname f))) (\<lambda>u.
     and_then (verify_files env files dsc_dir directory rest) (\<lambda>todo.
       Inr (f\<lparr>af_fname := path_join directory (af_fname f)\<rparr> # todo)))"

text \<open>
  The routing between the NEW queue and the suite: the result is \<^verbatim>\<open>is_new\<close>, the entry of
  the NEW queue, the package and the state.
\<close>

definition route_source ::
  "rss \<Rightarrow> new_policy \<Rightarrow> pkg_key \<Rightarrow> (nat \<times> pkg_key) option \<Rightarrow> source_package \<Rightarrow> state
     \<Rightarrow> bool \<times> (nat \<times> pkg_key) option \<times> source_package \<times> state" where
  "route_source r policy key nq_entry spkg st =
     (let missing_overrides = check_overrides_source st r spkg
      in if policy = NEVER_NEW
         then (False, nq_entry, spkg\<lparr>sp_suites := sp_suites spkg @ [rss_suite_id r]\<rparr>,
               register_package_overrides st r missing_overrides)
         else if missing_overrides \<noteq> [] \<or> policy = ALWAYS_NEW
         then (case nq_entry of
                 None \<Rightarrow> (True, Some (rss_suite_id r, key), spkg,
                           st\<lparr>queue_new := queue_new st @ [(rss_suite_id r, key)]\<rparr>)
               | Some entry \<Rightarrow> (True, Some entry, spkg, st))
         else (False, nq_entry, spkg\<lparr>sp_suites := sp_suites spkg @ [rss_suite_id r]\<rparr>, st))"

text \<open>
  The loop that places the files: \<open>root\<close> is the NEW-queue directory when the package is
  new and the root of the archive otherwise. An occupied destination ends the import.
\<close>

fun place_files ::
  "bool \<Rightarrow> string \<Rightarrow> string \<Rightarrow> bool \<Rightarrow> archive_file list \<Rightarrow> state \<Rightarrow> (error + unit) \<times> state" where
  "place_files keep root dsc_dir is_new [] st = (Inr (), st)"
| "place_files keep root dsc_dir is_new (f # rest) st =
     (let pool_fname_full = path_join root (af_fname f)
      in if fs st pool_fname_full \<noteq> None then (Inl (DestinationExists (af_fname f)), st)
         else (case copy_or_move keep (path_join dsc_dir (path_basename (af_fname f)))
                      pool_fname_full is_new (fs st) of
                 (Inl e, files1) \<Rightarrow> (Inl e, st\<lparr>fs := files1\<rparr>)
               | (Inr u, files1) \<Rightarrow>
                   place_files keep root dsc_dir is_new rest
                     (st\<lparr>fs := files1, archive_files := archive_files st @ [f]\<rparr>)))"

text \<open>
  The end of \<^verbatim>\<open>import_source\<close>: the obsolete entry of the NEW queue is deleted, Directory
  is popped, the rest of the stanza is the extra data, the package is added, and outside
  NEW the package is marked as published and the suite gets its pending changes.
\<close>

definition finish_source ::
  "rss \<Rightarrow> pkg_key \<Rightarrow> bool \<Rightarrow> (nat \<times> pkg_key) option \<Rightarrow> source_package \<Rightarrow> stanza \<Rightarrow> state
     \<Rightarrow> (error + unit) \<times> state" where
  "finish_source r key is_new nq_entry spkg tf st =
     (let st1 = (case nq_entry of
                   None \<Rightarrow> st
                 | Some entry \<Rightarrow> if is_new then st else st\<lparr>queue_new := remove1 entry (queue_new st)\<rparr>)
      in case stanza_pop tf ''Directory'' of
           Inl e \<Rightarrow> (Inl e, st1)
         | Inr (directory, tf1) \<Rightarrow>
             (let st2 = st1\<lparr>source_packages := (source_packages st1)(key \<mapsto> spkg\<lparr>sp_extra_data := tf1\<rparr>)\<rparr>
              in if is_new then (Inr (), st2)
                 else (Inr (), (package_mark_published st2 r (fst (snd key)) (snd (snd key)))
                                 \<lparr>changes_pending := (changes_pending st2)(rss_id r := True)\<rparr>)))"

text \<open>
  Everything \<^verbatim>\<open>import_source\<close> does before it places the files: the rendering of the
  .dsc, the control data with the check of the version memory, the removal of old files, the
  verification of the new ones and the routing. A failure gives the exception and the state
  it leaves, success the plan for the rest: the identity of the package, \<^verbatim>\<open>is_new\<close>, the
  entry of the NEW queue, the package, \<^verbatim>\<open>files_todo\<close>, the rest of the stanza and the state.
\<close>

record source_plan =
  pl_key :: pkg_key
  pl_is_new :: bool
  pl_nq_entry :: "(nat \<times> pkg_key) option"
  pl_spkg :: source_package
  pl_files_todo :: "archive_file list"
  pl_tf :: stanza
  pl_state :: state

definition source_prepare ::
  "('v::linorder) env \<Rightarrow> rss \<Rightarrow> state \<Rightarrow> string \<Rightarrow> string option \<Rightarrow> new_policy
     \<Rightarrow> error \<times> state + source_plan" where
  "source_prepare env r st dsc_fname component_name policy =
     (case render_sources env dsc_fname (fs st dsc_fname) of
        Inl e \<Rightarrow> Inl (e, st)
      | Inr src \<Rightarrow>
        (case source_control env r st src component_name of
           Inl e \<Rightarrow> Inl (e, st)
         | Inr h \<Rightarrow>
           (let key = (rss_repo_id r, sh_pkgname h, sh_version h);
                (spkg1, st1) = drop_old_files r key (sh_spkg h) st
            in case verify_files env (fs st1) (path_dirname dsc_fname) (sp_directory spkg1)
                      (map snd (sh_files h)) of
                 Inl e \<Rightarrow> Inl (e, st1)
               | Inr files_todo \<Rightarrow>
                 (let (is_new, nq_entry, spkg2, st2) =
                        route_source r policy key (sh_nq_entry h) (spkg1\<lparr>sp_files := files_todo\<rparr>) st1
                  in Inr \<lparr>pl_key = key, pl_is_new = is_new, pl_nq_entry = nq_entry,
                          pl_spkg = spkg2, pl_files_todo = files_todo, pl_tf = sh_tf h,
                          pl_state = st2\<rparr>))))"

text \<open>
  \<^verbatim>\<open>PackageImporter.import_source\<close>. \<open>keep\<close> is \<^verbatim>\<open>keep_source_packages\<close>. The result is
  the exception raised, if any, and the state the call leaves: the rows as the session has
  them and the file system, which keeps what was done before an exception. The attributes of
  the package reach its row where the code flushes or adds it.
\<close>

definition import_source ::
  "('v::linorder) env \<Rightarrow> bool \<Rightarrow> rss \<Rightarrow> state \<Rightarrow> string \<Rightarrow> string option \<Rightarrow> new_policy
     \<Rightarrow> (error + unit) \<times> state" where
  "import_source env keep r st dsc_fname component_name policy =
     (case source_prepare env r st dsc_fname component_name policy of
        Inl (e, st1) \<Rightarrow> (Inl e, st1)
      | Inr pl \<Rightarrow>
          (case place_files keep (if pl_is_new pl then rss_new_queue_dir r else rss_root_dir r)
                  (path_dirname dsc_fname) (pl_is_new pl) (pl_files_todo pl) (pl_state pl) of
             (Inl e, st3) \<Rightarrow> (Inl e, st3)
           | (Inr u, st3) \<Rightarrow>
               finish_source r (pl_key pl) (pl_is_new pl) (pl_nq_entry pl) (pl_spkg pl) (pl_tf pl) st3))"




section \<open>Importing a binary package\<close>

text \<open>The extension that \<^verbatim>\<open>os.path.splitext\<close> splits off.\<close>

definition path_ext :: "string \<Rightarrow> string" where
  "path_ext p =
     (let base = dropWhile (\<lambda>c. c = CHR ''.'') (path_basename p)
      in if CHR ''.'' \<in> set base then CHR ''.'' # rev (takeWhile (\<lambda>c. c \<noteq> CHR ''.'') (rev base))
         else [])"

text \<open>Modelled from the spec: the string of a \<^verbatim>\<open>DebType\<close>, the extension of the pool's file name.\<close>

definition deb_type_str :: "deb_type \<Rightarrow> string" where
  "deb_type_str t = (case t of DEB \<Rightarrow> ''deb'' | UDEB \<Rightarrow> ''udeb'')"

text \<open>
  The first part of \<^verbatim>\<open>import_binary\<close>, from Package to the name and version of the source
  package: nothing is touched.
\<close>

record binary_head =
  bh_pkgname :: string
  bh_version :: string
  bh_architecture :: string
  bh_maintainer :: string
  bh_homepage :: "string option"
  bh_size_installed :: string
  bh_source_name :: string
  bh_source_version :: string
  bh_tf :: stanza

definition binary_control :: "state \<Rightarrow> stanza \<Rightarrow> error + binary_head" where
  "binary_control st bin_tf =
     and_then (stanza_pop bin_tf ''Package'') (\<lambda>(pkgname, tf1).
     and_then (stanza_pop tf1 ''Version'') (\<lambda>(version, tf2).
     and_then (stanza_pop tf2 ''Architecture'') (\<lambda>(arch_name, tf3).
     and_then (one (filter (\<lambda>a. a = arch_name) (architectures st))) (\<lambda>architecture.
     and_then (stanza_pop tf3 ''Maintainer'') (\<lambda>(maintainer, tf4).
       let (homepage, tf5) = stanza_pop_default tf4 ''Homepage''
       in and_then (stanza_pop tf5 ''Installed-Size'') (\<lambda>(size_installed, tf6).
            let (source_info, tf7) = stanza_pop_default tf6 ''Source''
            in and_then (importer_source (case source_info of None \<Rightarrow> [] | Some v \<Rightarrow> v)
                           pkgname version) (\<lambda>(source_name, source_version).
                 Inr \<lparr>bh_pkgname = pkgname, bh_version = version,
                      bh_architecture = architecture, bh_maintainer = maintainer,
                      bh_homepage = homepage, bh_size_installed = size_installed,
                      bh_source_name = source_name, bh_source_version = source_version,
                      bh_tf = tf7\<rparr>)))))))"

text \<open>
  The query for the source package among those of the destination suite: the row of
  the repository, name and version, if the suite is one of its suites.
\<close>

definition published_source :: "rss \<Rightarrow> state \<Rightarrow> string \<Rightarrow> string \<Rightarrow> pkg_key option" where
  "published_source r st source_name source_version =
     (case source_packages st (rss_repo_id r, source_name, source_version) of
        None \<Rightarrow> None
      | Some row \<Rightarrow>
          if rss_suite_id r \<in> set (sp_suites row)
          then Some (rss_repo_id r, source_name, source_version) else None)"

text \<open>
  The search for the source package: among the packages of the suite, then in the NEW
  queue. The result is the source package and \<^verbatim>\<open>is_new\<close>.
\<close>

definition find_source :: "rss \<Rightarrow> state \<Rightarrow> binary_head \<Rightarrow> error + (pkg_key \<times> bool)" where
  "find_source r st h =
     (case published_source r st (bh_source_name h) (bh_source_version h) of
        Some key \<Rightarrow> Inr (key, False)
      | None \<Rightarrow>
          and_then (new_queue_entry r st (bh_source_name h) (bh_source_version h)) (\<lambda>nq_entry.
            case nq_entry of
              None \<Rightarrow> Inl (OrphanedBinary (bh_pkgname h) (bh_version h))
            | Some (dest, key) \<Rightarrow> Inr (key, True)))"

text \<open>
  The name of the file in the pool: the pool directory of the source package and the
  base name made of the package, its version without epoch, the architecture and the type
  that the extension of the uploaded file gives.
\<close>

definition binary_pool_fname :: "'v env \<Rightarrow> string \<Rightarrow> binary_head \<Rightarrow> pkg_key \<Rightarrow> string" where
  "binary_pool_fname env deb_fname h source =
     (let pkg_type = (if path_ext deb_fname = ''.udeb'' then UDEB else DEB);
          pool_dir = pool_dir_from_name env (fst (snd source));
          deb_basename = bh_pkgname h @ ''_'' @ snd (split_epoch env (bh_version h)) @ ''_''
                           @ bh_architecture h @ ''.'' @ deb_type_str pkg_type
      in path_join pool_dir deb_basename)"

text \<open>The \<^verbatim>\<open>ArchiveFile\<close> with that name and the declared checksums.\<close>

definition binary_file :: "'v env \<Rightarrow> string \<Rightarrow> binary_head \<Rightarrow> pkg_key \<Rightarrow> error + (archive_file \<times> stanza)" where
  "binary_file env deb_fname h source =
     (let pool_fname = binary_pool_fname env deb_fname h source
      in and_then (stanza_pop (bh_tf h) ''Size'') (\<lambda>(sz, tf1).
         and_then (stanza_pop tf1 ''MD5sum'') (\<lambda>(md5, tf2).
         and_then (stanza_pop tf2 ''SHA1'') (\<lambda>(sha1, tf3).
         and_then (stanza_pop tf3 ''SHA256'') (\<lambda>(sha256, tf4).
           let (sha512, tf5) = stanza_pop_default tf4 ''SHA512''
           in Inr (\<lparr>af_fname = pool_fname, af_size = Some (SizeStr sz), af_md5sum = Some md5,
                    af_sha1sum = Some sha1, af_sha256sum = Some sha256, af_sha512sum = sha512\<rparr>,
                   tf5))))))"

text \<open>
  The registration of a binary package whose source is in the suite, up to the extra data:
  the description, the override, the component and the relations.
\<close>

definition pop_relations :: "stanza \<Rightarrow> (string \<times> string) list \<Rightarrow> (string \<times> string list) list \<times> stanza" where
  "pop_relations tf attrs =
     foldl (\<lambda>(acc, d) (attr, key). (let (v, d1) = pop_split d key '', '' in (acc @ [(attr, v)], d1)))
       ([], tf) attrs"

definition binary_register ::
  "'v env \<Rightarrow> rss \<Rightarrow> state \<Rightarrow> binary_head \<Rightarrow> pkg_key \<Rightarrow> archive_file \<Rightarrow> stanza \<Rightarrow> string list
     \<Rightarrow> string option \<Rightarrow> error + binary_package" where
  "binary_register env r st h source af tf filelist_raw component_name =
     and_then (stanza_pop tf ''Description'') (\<lambda>(description, tf1).
     and_then (stanza_pop tf1 ''Filename'') (\<lambda>(filename, tf2).
     and_then (stanza_pop tf2 ''Priority'') (\<lambda>(priority, tf3).
     and_then (stanza_pop tf3 ''Section'') (\<lambda>(section, tf4).
       let (essential, tf5) = stanza_pop_default tf4 ''Essential''
       in and_then (one_or_none (filter (\<lambda>ov. ov_repo_suite_id ov = rss_id r
                                               \<and> ov_pkgname ov = bh_pkgname h) (overrides st)))
            (\<lambda>found. case found of
               None \<Rightarrow> Inl (MissingOverride (bh_pkgname h) (bh_version h))
             | Some ov \<Rightarrow>
                 and_then (one (filter (\<lambda>c. Some c = component_name) (components st))) (\<lambda>component.
                   let (depends, tf6) = pop_relations tf5
                         [(''depends'', ''Depends''), (''pre_depends'', ''Pre-Depends'')];
                       (relations, tf7) = pop_relations tf6
                         [(''replaces'', ''Replaces''), (''provides'', ''Provides''),
                          (''recommends'', ''Recommends''), (''suggests'', ''Suggests''),
                          (''enhances'', ''Enhances''), (''conflicts'', ''Conflicts''),
                          (''breaks'', ''Breaks''), (''built_using'', ''Built-Using'')];
                       (multi_arch, tf8) = stanza_pop_default tf7 ''Multi-Arch''
                   in Inr \<lparr>bp_name = bh_pkgname h, bp_version = bh_version h,
                           bp_repo_id = rss_repo_id r, bp_architecture = bh_architecture h,
                           bp_maintainer = bh_maintainer h, bp_homepage = bh_homepage h,
                           bp_size_installed = bh_size_installed h, bp_source = source,
                           bp_description = description,
                           bp_summary = py_strip (takeWhile (\<lambda>c. c \<noteq> CHR 0x0A) description),
                           bp_description_md5 = md5_hexdigest env description,
                           bp_override = ov, bp_component = component,
                           bp_contents = map (takeWhile (\<lambda>c. c \<noteq> CHR 0x09)) filelist_raw,
                           bp_relations = depends @ relations, bp_multi_arch = multi_arch,
                           bp_suites = [rss_suite_id r], bp_extra_data = tf8,
                           bp_file = af\<rparr>))))))"

text \<open>
  Everything \<^verbatim>\<open>import_binary\<close> does before it writes: the renderings, the control data, the
  source package, the checksums and their verification, and for a binary package whose
  source is in the suite its registration. The result is the file, \<^verbatim>\<open>is_new\<close> and, unless
  new, the package.
\<close>

definition binary_checks ::
  "'v env \<Rightarrow> rss \<Rightarrow> state \<Rightarrow> string \<Rightarrow> string option
     \<Rightarrow> error + (archive_file \<times> binary_package option)" where
  "binary_checks env r st deb_fname component_name =
     and_then (render_packages env deb_fname (fs st deb_fname)) (\<lambda>bin_tf.
     and_then (render_contents env deb_fname (fs st deb_fname)) (\<lambda>filelist_raw.
     and_then (binary_control st bin_tf) (\<lambda>h.
     and_then (find_source r st h) (\<lambda>(source, is_new).
     and_then (binary_file env deb_fname h source) (\<lambda>(af, tf).
     and_then (verify_hashes (apt_hashes env) (fs st) af deb_fname) (\<lambda>u.
       if is_new then Inr (af, None)
       else and_then (binary_register env r st h source af tf filelist_raw component_name)
              (\<lambda>bpkg. Inr (af, Some bpkg))))))))"

text \<open>
  \<^verbatim>\<open>PackageImporter.import_binary\<close>: after the checks a new binary package is only copied
  to the NEW queue, over what is there (the package object is expunged from the session and
  reaches no table); any other is copied to the pool unless its destination exists, and
  registered.
\<close>

definition import_binary ::
  "'v env \<Rightarrow> bool \<Rightarrow> rss \<Rightarrow> state \<Rightarrow> string \<Rightarrow> string option \<Rightarrow> (error + unit) \<times> state" where
  "import_binary env keep r st deb_fname component_name =
     (case binary_checks env r st deb_fname component_name of
        Inl e \<Rightarrow> (Inl e, st)
      | Inr (af, None) \<Rightarrow>
          (case copy_or_move keep deb_fname (path_join (rss_new_queue_dir r) (af_fname af)) True (fs st) of
             (res, files1) \<Rightarrow> (res, st\<lparr>fs := files1\<rparr>))
      | Inr (af, Some bpkg) \<Rightarrow>
          (let pool_fname_full = path_join (rss_root_dir r) (af_fname af)
           in if fs st pool_fname_full \<noteq> None then (Inl (DestinationExists (af_fname af)), st)
              else (case copy_or_move keep deb_fname pool_fname_full False (fs st) of
                      (Inl e, files1) \<Rightarrow> (Inl e, st\<lparr>fs := files1\<rparr>)
                    | (Inr u, files1) \<Rightarrow>
                        (let st1 = st\<lparr>fs := files1, archive_files := archive_files st @ [af],
                                       binary_packages := binary_packages st @ [bpkg]\<rparr>
                         in (Inr (), (package_mark_published st1 r (bp_name bpkg) (bp_version bpkg))
                                       \<lparr>changes_pending := (changes_pending st1)(rss_id r := True)\<rparr>)))))"

section \<open>Processing an upload\<close>

text \<open>
  The reasons \<^verbatim>\<open>process_changes\<close> returns with a rejection, one for each return statement,
  with the values its message is formatted with.
\<close>

datatype rejection =
    WeakSignature string
  | InvalidDistributions "string list"
  | SourcefulNotPermitted
  | SeenHigherOrEqual string string string
  | InvalidChanges string
  | BinariesNotAllowed
  | InvalidSourceFilename string
  | SourceImportFailed error
  | InvalidBinaryFilename string
  | BinaryImportFailed error

definition is_deb :: "string \<Rightarrow> bool" where
  "is_deb fname = (endswith fname ''.deb'' \<or> endswith fname ''.udeb'')"

text \<open>The loop over the binary packages of the upload: the first failure ends it.\<close>

fun import_binaries ::
  "'v env \<Rightarrow> bool \<Rightarrow> rss \<Rightarrow> string \<Rightarrow> changes_file list \<Rightarrow> state \<Rightarrow> rejection option \<times> state" where
  "import_binaries env keep r dsc_dir [] st = (None, st)"
| "import_binaries env keep r dsc_dir (f # rest) st =
     (if is_deb (cf_fname f) then
        (if CHR ''/'' \<in> set (cf_fname f) then (Some (InvalidBinaryFilename (cf_fname f)), st)
         else (case import_binary env keep r st (path_join dsc_dir (cf_fname f)) (cf_component f) of
                 (Inl e, st1) \<Rightarrow> (Some (BinaryImportFailed e), st1)
               | (Inr u, st1) \<Rightarrow> import_binaries env keep r dsc_dir rest st1))
      else import_binaries env keep r dsc_dir rest st)"

text \<open>The import of the source package of the upload: the first .dsc of the files.\<close>

definition import_dsc ::
  "('v::linorder) env \<Rightarrow> bool \<Rightarrow> rss \<Rightarrow> uploader \<Rightarrow> string \<Rightarrow> changes_file list \<Rightarrow> state
     \<Rightarrow> rejection option \<times> state" where
  "import_dsc env keep r upl dsc_dir files st =
     (case find (\<lambda>f. endswith (cf_fname f) ''.dsc'') files of
        None \<Rightarrow> (None, st)
      | Some f \<Rightarrow>
          if CHR ''/'' \<in> set (cf_fname f) then (Some (InvalidSourceFilename (cf_fname f)), st)
          else (case import_source env keep r st (path_join dsc_dir (cf_fname f)) (cf_component f)
                       (if up_always_review upl then ALWAYS_NEW else rss_new_policy r) of
                  (Inl e, st1) \<Rightarrow> (Some (SourceImportFailed e), st1)
                | (Inr u, st1) \<Rightarrow> (None, st1)))"

text \<open>
  \<^verbatim>\<open>UploadHandler.process_changes\<close> for the repository with the given id and name. \<open>Inl\<close>
  is an exception that leaves the method, \<open>Inr\<close> the tuple it returns.
\<close>

definition process_changes ::
  "('v::linorder) env \<Rightarrow> bool \<Rightarrow> nat \<Rightarrow> string \<Rightarrow> state \<Rightarrow> string
     \<Rightarrow> (error + bool \<times> uploader \<times> rejection option) \<times> state" where
  "process_changes env keep repo_id repo_name st fname =
     (case parse_changes env fname (fs st fname) of
        Inl e \<Rightarrow> (Inl e, st)
      | Inr ch \<Rightarrow>
      (case one_or_none (filter (\<lambda>u. ch_primary_fingerprint ch \<in> set (up_pgp_fingerprints u))
                           (uploaders st)) of
         Inl e \<Rightarrow> (Inl e, st)
       | Inr None \<Rightarrow> (Inl (UploadException (ch_primary_fingerprint ch) (path_basename fname)), st)
       | Inr (Some upl) \<Rightarrow>
           if ch_weak_signature ch
           then (Inr (False, upl, Some (WeakSignature (path_basename fname))), st)
           else if length (ch_distributions ch) \<noteq> 1
           then (Inr (False, upl, Some (InvalidDistributions (ch_distributions ch))), st)
           else if ch_sourceful ch \<and> \<not> up_allow_source_uploads upl
           then (Inr (False, upl, Some SourcefulNotPermitted), st)
           else
           (case one (filter (\<lambda>r. rss_repo_id r = repo_id \<and> rss_suite_name r = hd (ch_distributions ch))
                        (suite_settings st)) of
              Inl e \<Rightarrow> (Inl e, st)
            | Inr r \<Rightarrow>
              (case ch_version ch of
                 None \<Rightarrow> (Inl (KeyError ''Version''), st)
               | Some version \<Rightarrow>
                 (case (case version_memory st (rss_repo_id r, ch_source_name ch) of
                          None \<Rightarrow> None
                        | Some highest \<Rightarrow>
                            if debversion env highest \<ge> debversion env version
                            then Some highest else None) of
                    Some highest \<Rightarrow>
                      (Inr (False, upl, Some (SeenHigherOrEqual highest (ch_source_name ch) repo_name)), st)
                  | None \<Rightarrow>
                    (case ch_files ch of
                       Inl (InvalidChangesException msg) \<Rightarrow> (Inr (False, upl, Some (InvalidChanges msg)), st)
                     | Inl e \<Rightarrow> (Inl e, st)
                     | Inr files \<Rightarrow>
                         if \<not> up_allow_binary_uploads upl \<and> (\<exists>f \<in> set files. is_deb (cf_fname f))
                         then (Inr (False, upl, Some BinariesNotAllowed), st)
                         else
                         (case import_dsc env keep r upl (path_dirname fname) files st of
                            (Some reason, st1) \<Rightarrow> (Inr (False, upl, Some reason), st1)
                          | (None, st1) \<Rightarrow>
                            (case import_binaries env keep r (path_dirname fname) files st1 of
                               (Some reason, st2) \<Rightarrow> (Inr (False, upl, Some reason), st2)
                             | (None, st2) \<Rightarrow> (Inr (True, upl, None), st2)))))))))"

code_pred source_field_spec .

text \<open>
  The architecture filter in the words of the specification. A stanza is wanted when its
  declared architecture is \<open>all\<close> exactly if the requested one is. A stanza disagrees,
  outside the special case of \<open>all\<close>, when neither architecture is \<open>all\<close> and the two
  differ.
\<close>

definition arch_wanted :: "string \<Rightarrow> stanza \<Rightarrow> bool" where
  "arch_wanted arch e = ((stanza_get e ''Architecture'' = Some ''all'') = (arch = ''all''))"

definition arch_mismatch :: "string \<Rightarrow> stanza \<Rightarrow> bool" where
  "arch_mismatch arch e =
     (arch \<noteq> ''all'' \<and> stanza_get e ''Architecture'' \<noteq> Some ''all'' \<and>
      stanza_get e ''Architecture'' \<noteq> Some arch)"

definition is_arch_warning :: "warning \<Rightarrow> bool" where
  "is_arch_warning w =
     (case w of UnexpectedArchitecture _ _ _ _ _ \<Rightarrow> True | NoFiles _ _ _ \<Rightarrow> False)"

definition arch_warning_of :: "string \<Rightarrow> string \<Rightarrow> stanza \<Rightarrow> warning" where
  "arch_warning_of rname arch e =
     UnexpectedArchitecture rname (get_or e ''Package'' []) (get_or e ''Version'' [])
       (get_or e ''Architecture'' []) arch"

section \<open>Sample data\<close>

text \<open>
  A stand-in for APT's \<^verbatim>\<open>Hashes\<close>: the five pairs APT yields, in its order, each value the
  content tagged with the algorithm. The theorems below hold for every hash function; the
  stand-in only serves the evaluations on sample data.
\<close>

definition sample_hashes :: "string \<Rightarrow> (string \<times> string) list" where
  "sample_hashes content =
     [(''MD5Sum'', ''md5-'' @ content), (''SHA1'', ''sha1-'' @ content),
      (''SHA256'', ''sha256-'' @ content), (''SHA512'', ''sha512-'' @ content),
      (''Checksum-FileSize'', ''size-'' @ content)]"

text \<open>A variant that computes three digests only, for the count of the checks.\<close>

definition short_hashes :: "string \<Rightarrow> (string \<times> string) list" where
  "short_hashes content =
     [(''MD5Sum'', ''md5-'' @ content), (''SHA1'', ''sha1-'' @ content),
      (''SHA256'', ''sha256-'' @ content)]"

definition sample_staging :: "string \<rightharpoonup> string" where
  "sample_staging = [''/incoming/foo_1.0.dsc'' \<mapsto> ''dsc'']"

text \<open>The record of \<^verbatim>\<open>foo_1.0.dsc\<close> as a .dsc without Checksums-Sha512 declares it.\<close>

definition dsc_no_sha512 :: archive_file where
  "dsc_no_sha512 =
     \<lparr>af_fname = ''foo_1.0.dsc'', af_size = Some (SizeStr ''size-dsc''), af_md5sum = Some ''md5-dsc'',
      af_sha1sum = Some ''sha1-dsc'', af_sha256sum = Some ''sha256-dsc'', af_sha512sum = None\<rparr>"

text \<open>The same file with a wrong MD5 digest declared.\<close>

definition dsc_bad_md5 :: archive_file where
  "dsc_bad_md5 = dsc_no_sha512\<lparr>af_md5sum := Some ''md5-other'', af_sha512sum := Some ''sha512-dsc''\<rparr>"

text \<open>
  A reader environment for the evaluations: \<^verbatim>\<open>int\<close> on the two numbers of the sample
  index, a \<^verbatim>\<open>split_strip\<close> for values without a separator, a priority as a number.
\<close>

definition sample_reader_env :: "nat reader_env" where
  "sample_reader_env =
     \<lparr>py_int = (\<lambda>s. if s = ''0'' then Some 0 else if s = ''10'' then Some 10 else None),
      split_strip = (\<lambda>s sep. if s = [] then [] else [s]),
      priority_from_string = (\<lambda>s. Inr (if s = ''optional'' then 5 else 0))\<rparr>"

definition sample_stanza :: "string \<Rightarrow> string \<Rightarrow> stanza" where
  "sample_stanza name arch =
     [(''Package'', name), (''Version'', ''1.0''), (''Architecture'', arch),
      (''Maintainer'', ''A Maintainer''), (''Installed-Size'', ''10''), (''Section'', ''misc''),
      (''Priority'', ''optional''), (''Description'', ''sample''),
      (''Filename'', ''pool/main/'' @ name @ ''.deb''), (''Size'', ''10''), (''SHA256'', ''00'')]"

definition sample_index :: "stanza list" where
  "sample_index =
     [sample_stanza ''foo'' ''amd64'', sample_stanza ''foo-data'' ''all'',
      sample_stanza ''bar'' ''arm64'']"

text \<open>
  An environment for the evaluations. Versions are compared as strings, byte by byte, which
  on the versions of the samples (\<open>1.0\<close>, \<open>2.0\<close>) is Debian's order. The pool directory is
  \<open>pool/main/\<close>, the first letter and the name; the sample versions have no epoch. The
  renderings know the three files of the sample upload by their content.
\<close>

definition sample_dsc :: sources where
  "sample_dsc =
     \<lparr>src_fields =
        [(''Package'', ''foo''), (''Version'', ''1.0''), (''Format'', ''3.0 (native)''),
         (''Architecture'', ''any''), (''Maintainer'', ''A Maintainer''), (''Binary'', ''foo''),
         (''Directory'', ''pool/main/f/foo''), (''Homepage'', ''https://example.org'')],
      src_sums =
        [(''Files'', [(''md5-dsc'', ''size-dsc'', ''foo_1.0.dsc'')]),
         (''Checksums-Sha1'', [(''sha1-dsc'', ''size-dsc'', ''foo_1.0.dsc'')]),
         (''Checksums-Sha256'', [(''sha256-dsc'', ''size-dsc'', ''foo_1.0.dsc'')]),
         (''Checksums-Sha512'', [(''sha512-dsc'', ''size-dsc'', ''foo_1.0.dsc'')])]\<rparr>"

definition sample_deb :: stanza where
  "sample_deb =
     [(''Package'', ''foo''), (''Version'', ''1.0''), (''Architecture'', ''amd64''),
      (''Maintainer'', ''A Maintainer''), (''Installed-Size'', ''10''),
      (''Size'', ''size-deb''), (''MD5sum'', ''md5-deb''), (''SHA1'', ''sha1-deb''),
      (''SHA256'', ''sha256-deb''), (''SHA512'', ''sha512-deb''),
      (''Description'', ''sample''), (''Filename'', ''foo_1.0_amd64.deb''),
      (''Priority'', ''optional''), (''Section'', ''misc'')]"

text \<open>
  A binary package whose control data names the package with an absolute path and the
  source \<open>foo 1.0\<close>; its checksums are those of its content.
\<close>

definition crafted_deb :: stanza where
  "crafted_deb =
     [(''Package'', ''/archive/pool/main/b/bar/bar''), (''Version'', ''1.0''),
      (''Architecture'', ''amd64''), (''Maintainer'', ''A Maintainer''),
      (''Installed-Size'', ''10''), (''Source'', ''foo (1.0)''),
      (''Size'', ''size-crafted''), (''MD5sum'', ''md5-crafted''), (''SHA1'', ''sha1-crafted''),
      (''SHA256'', ''sha256-crafted''), (''SHA512'', ''sha512-crafted''),
      (''Description'', ''sample''), (''Filename'', ''bar_1.0_amd64.deb''),
      (''Priority'', ''optional''), (''Section'', ''misc'')]"

definition sample_changes :: changes where
  "sample_changes =
     \<lparr>ch_primary_fingerprint = ''ABCD'', ch_weak_signature = False,
      ch_distributions = [''unstable''], ch_sourceful = True, ch_source_name = ''foo'',
      ch_version = Some ''1.0'',
      ch_files = Inr [\<lparr>cf_fname = ''foo_1.0.dsc'', cf_component = Some ''main''\<rparr>,
                      \<lparr>cf_fname = ''foo_1.0_amd64.deb'', cf_component = Some ''main''\<rparr>]\<rparr>"

definition sample_env :: "string env" where
  "sample_env =
     \<lparr>apt_hashes = sample_hashes,
      debversion = (\<lambda>v. v),
      pool_dir_from_name = (\<lambda>n. ''pool/main/'' @ take 1 n @ ''/'' @ n),
      split_epoch = (\<lambda>v. ([], v)),
      parse_package_list_str = (\<lambda>raw. []),
      md5_hexdigest = (\<lambda>d. ''md5-'' @ d),
      render_sources = (\<lambda>p c. if c = Some ''dsc'' then Inr sample_dsc else Inl (CalledProcessError p)),
      render_packages = (\<lambda>p c. if c = Some ''deb'' then Inr sample_deb
                                else if c = Some ''crafted'' then Inr crafted_deb
                                else Inl (CalledProcessError p)),
      render_contents = (\<lambda>p c. if c = Some ''deb'' \<or> c = Some ''crafted'' then Inr [''usr/bin/foo'']
                                else Inl (CalledProcessError p)),
      parse_changes = (\<lambda>p c. if c = Some ''changes'' then Inr sample_changes
                              else if c = Some ''changes-experimental''
                              then Inr (sample_changes\<lparr>ch_distributions := [''experimental'']\<rparr>)
                              else Inl SignatureError)\<rparr>"

definition sample_rss :: rss where
  "sample_rss =
     \<lparr>rss_id = 1, rss_repo_id = 1, rss_repo_name = ''master'', rss_suite_id = 1,
      rss_suite_name = ''unstable'', rss_new_policy = DEFAULT, rss_root_dir = ''/archive'',
      rss_new_queue_dir = ''/archive-new''\<rparr>"

definition sample_uploader :: uploader where
  "sample_uploader =
     \<lparr>up_email = ''uploader@example.org'', up_pgp_fingerprints = [''ABCD''],
      up_allow_source_uploads = True, up_allow_binary_uploads = True, up_always_review = False\<rparr>"

text \<open>
  The archive with the upload in \<open>/incoming\<close>, an override for \<open>foo\<close>, and nothing
  published.
\<close>

definition sample_state :: state where
  "sample_state =
     \<lparr>fs = [''/incoming/foo_1.0.dsc'' \<mapsto> ''dsc'', ''/incoming/foo_1.0_amd64.deb'' \<mapsto> ''deb'',
            ''/incoming/foo_1.0_amd64.changes'' \<mapsto> ''changes'',
            ''/incoming/foo_1.0_exp.changes'' \<mapsto> ''changes-experimental''],
      version_memory = Map.empty,
      source_packages = Map.empty,
      queue_new = [],
      archive_files = [],
      binary_packages = [],
      overrides = [\<lparr>ov_repo_suite_id = 1, ov_pkgname = ''foo'', ov_section = Some ''misc'',
                    ov_priority = Some ''optional'', ov_essential = False\<rparr>],
      changes_pending = (\<lambda>i. False),
      components = [''main''],
      architectures = [''amd64'', ''all''],
      suite_settings = [sample_rss],
      uploaders = [sample_uploader]\<rparr>"

text \<open>The source package \<open>foo 1.0\<close> as a row, in the suite or outside of every suite.\<close>

definition sample_source :: "nat list \<Rightarrow> source_package" where
  "sample_source suites =
     new_source_package\<lparr>sp_suites := suites, sp_component := ''main'',
                        sp_directory := ''pool/main/f/foo''\<rparr>"

text \<open>
  The archive that has published \<open>foo 1.0\<close> and then seen \<open>foo 2.0\<close>, the archive whose
  version memory holds \<open>foo 1.0\<close>, the archive with the .dsc of \<open>foo 1.0\<close> in its pool,
  and the archive with \<open>foo 1.0\<close> waiting in the NEW queue.
\<close>

definition published_state :: state where
  "published_state =
     sample_state\<lparr>version_memory := [(1, ''foo'') \<mapsto> ''2.0''],
                  source_packages := [(1, ''foo'', ''1.0'') \<mapsto> sample_source [1]]\<rparr>"

definition seen_state :: state where
  "seen_state = sample_state\<lparr>version_memory := [(1, ''foo'') \<mapsto> ''1.0'']\<rparr>"

definition occupied_state :: state where
  "occupied_state =
     sample_state\<lparr>fs := (fs sample_state)(''/archive/pool/main/f/foo/foo_1.0.dsc'' \<mapsto> ''old'',
                                           ''/archive/pool/main/f/foo/foo_1.0_amd64.deb'' \<mapsto> ''old''),
                  source_packages := [(1, ''foo'', ''1.0'') \<mapsto> sample_source [1]]\<rparr>"

definition new_state :: state where
  "new_state =
     sample_state\<lparr>source_packages := [(1, ''foo'', ''1.0'') \<mapsto> sample_source []],
                  queue_new := [(1, 1, ''foo'', ''1.0'')]\<rparr>"

text \<open>
  The archive with \<open>foo 1.0\<close> waiting in the NEW queue, the published package
  \<open>bar 1.0\<close> in the pool and the crafted upload in \<open>/incoming\<close>; and the archive
  with both files of \<open>foo 1.0\<close> in its pool that has lost the override of \<open>foo\<close>.
\<close>

definition crafted_state :: state where
  "crafted_state =
     new_state\<lparr>fs := (fs new_state)(''/incoming/bar_1.0_amd64.deb'' \<mapsto> ''crafted'',
                                     ''/archive/pool/main/b/bar/bar_1.0_amd64.deb'' \<mapsto> ''old'')\<rparr>"

definition unclassified_state :: state where
  "unclassified_state = occupied_state\<lparr>overrides := []\<rparr>"

text \<open>The record of \<^verbatim>\<open>foo_1.0.dsc\<close> with the MD5 digest and the size declared, nothing else.\<close>

definition dsc_truncated :: archive_file where
  "dsc_truncated = dsc_no_sha512\<lparr>af_sha1sum := None, af_sha256sum := None\<rparr>"

text \<open>The same environment with a .dsc that has no Checksums-Sha512 section.\<close>

definition sample_env_no_sha512 :: "string env" where
  "sample_env_no_sha512 =
     sample_env\<lparr>render_sources := (\<lambda>p c. if c = Some ''dsc''
        then Inr (sample_dsc\<lparr>src_sums := filter (\<lambda>kv. fst kv \<noteq> ''Checksums-Sha512'') (src_sums sample_dsc)\<rparr>)
        else Inl (CalledProcessError p))\<rparr>"



section \<open>Properties of the checksum verification\<close>

lemma verify_loop_error:
  "verify_loop f hs k = Inl e \<Longrightarrow>
     (\<exists>t v. (t, v) \<in> set hs \<and>
        ((e = UnknownHashType t \<and> hash_okay f t v = None) \<or>
         (e = ChecksumFailed t (af_fname f) v \<and> hash_okay f t v = Some False)))"
proof (induction hs arbitrary: k)
  case Nil
  then show ?case by simp
next
  case (Cons h hs)
  obtain t v where h: "h = (t, v)" by (cases h)
  show ?case
  proof (cases "hash_okay f t v")
    case None
    with Cons.prems h show ?thesis by auto
  next
    case (Some ok)
    show ?thesis
    proof (cases ok)
      case True
      with Cons.prems h Some have "verify_loop f hs (k + 1) = Inl e" by simp
      from Cons.IH[OF this] show ?thesis by auto
    next
      case False
      with Cons.prems h Some show ?thesis by auto
    qed
  qed
qed

lemma verify_loop_ok:
  "verify_loop f hs k = Inr n \<longleftrightarrow>
     (n = k + length hs \<and> (\<forall>(t, v) \<in> set hs. hash_okay f t v = Some True))"
proof (induction hs arbitrary: k)
  case Nil
  then show ?case by auto
next
  case (Cons h hs)
  obtain t v where h: "h = (t, v)" by (cases h)
  show ?case
  proof (cases "hash_okay f t v")
    case None
    with h show ?thesis by simp
  next
    case (Some ok)
    with h Cons.IH[of "k + 1"] show ?thesis by (cases ok) auto
  qed
qed

lemma verify_loop_mismatch:
  "(t, v) \<in> set hs \<Longrightarrow> hash_okay f t v \<noteq> Some True \<Longrightarrow> \<exists>e. verify_loop f hs k = Inl e"
  using verify_loop_ok[of f hs k] by (cases "verify_loop f hs k") auto

lemma message_has_value: "sublist v (checksum_failed_message t n v)"
  unfolding checksum_failed_message_def sublist_def by (metis append.assoc)

lemma message_has_fname: "sublist n (checksum_failed_message t n v)"
  unfolding checksum_failed_message_def sublist_def by (metis append.assoc)

lemma message_has_hashtype: "prefix t (checksum_failed_message t n v)"
  unfolding checksum_failed_message_def by simp

text \<open>
  What the verification does for any list of computed hashes. With fewer than four hashes
  it never passes, and it fails with the insufficient-hashes error when every check made
  succeeded. One mismatching check is fatal. The checksum failure carries the hash type, the
  file's name and the digest computed from the local file, and its message starts with the
  hash type and contains the name and that digest.
\<close>

lemma verify_hashes_outcomes:
  assumes "files local_fname = Some content"
  shows "(length (hashes content) < 4 \<longrightarrow> verify_hashes hashes files f local_fname \<noteq> Inr ()) \<and>
         (length (hashes content) < 4 \<and> (\<forall>(t, v) \<in> set (hashes content). hash_okay f t v = Some True)
            \<longrightarrow> verify_hashes hashes files f local_fname = Inl InsufficientHashes) \<and>
         (\<forall>t v. (t, v) \<in> set (hashes content) \<and> hash_okay f t v = Some False
            \<longrightarrow> (\<exists>e. verify_hashes hashes files f local_fname = Inl e \<and> e \<noteq> InsufficientHashes)) \<and>
         (\<forall>t n v. verify_hashes hashes files f local_fname = Inl (ChecksumFailed t n v)
            \<longrightarrow> (t, v) \<in> set (hashes content) \<and> hash_okay f t v = Some False \<and> n = af_fname f \<and>
                prefix t (checksum_failed_message t n v) \<and>
                sublist n (checksum_failed_message t n v) \<and>
                sublist v (checksum_failed_message t n v))"
proof -
  have c1: "verify_hashes hashes files f local_fname \<noteq> Inr ()" if "length (hashes content) < 4"
    using that assms by (auto simp: verify_hashes_def verify_loop_ok split: sum.splits)
  have c2: "verify_hashes hashes files f local_fname = Inl InsufficientHashes"
    if "length (hashes content) < 4 \<and> (\<forall>(t, v) \<in> set (hashes content). hash_okay f t v = Some True)"
  proof -
    from that have "verify_loop f (hashes content) 0 = Inr (length (hashes content))"
      and "length (hashes content) < 4"
      by (simp_all add: verify_loop_ok)
    then show ?thesis using assms by (simp add: verify_hashes_def)
  qed
  have c3: "\<exists>e. verify_hashes hashes files f local_fname = Inl e \<and> e \<noteq> InsufficientHashes"
    if "(t, v) \<in> set (hashes content) \<and> hash_okay f t v = Some False" for t v
  proof -
    from that obtain e where e: "verify_loop f (hashes content) 0 = Inl e"
      using verify_loop_mismatch[of t v "hashes content" f 0] by auto
    from verify_loop_error[OF e] have "e \<noteq> InsufficientHashes" by auto
    with e show ?thesis using assms by (simp add: verify_hashes_def)
  qed
  have c4: "(t, v) \<in> set (hashes content) \<and> hash_okay f t v = Some False \<and> n = af_fname f \<and>
        prefix t (checksum_failed_message t n v) \<and>
        sublist n (checksum_failed_message t n v) \<and>
        sublist v (checksum_failed_message t n v)"
    if "verify_hashes hashes files f local_fname = Inl (ChecksumFailed t n v)" for t n v
  proof -
    from that have "verify_loop f (hashes content) 0 = Inl (ChecksumFailed t n v)"
      using assms by (auto simp: verify_hashes_def split: sum.splits if_splits)
    from verify_loop_error[OF this] show ?thesis
      by (auto simp: message_has_value message_has_fname message_has_hashtype)
  qed
  from c1 c2 c3 c4 show ?thesis by blast
qed

text \<open>
  On sample data: three hashes that all match give the insufficient-hashes error, and a
  wrong MD5 digest gives the checksum failure for MD5Sum.
\<close>

lemma verify_hashes_outcomes_sample:
  "sample_staging ''/incoming/foo_1.0.dsc'' = Some ''dsc'' \<and>
   length (short_hashes ''dsc'') < 4 \<and>
   verify_hashes short_hashes sample_staging dsc_no_sha512 ''/incoming/foo_1.0.dsc''
     = Inl InsufficientHashes \<and>
   (''MD5Sum'', ''md5-dsc'') \<in> set (sample_hashes ''dsc'') \<and>
   hash_okay dsc_bad_md5 ''MD5Sum'' ''md5-dsc'' = Some False \<and>
   verify_hashes sample_hashes sample_staging dsc_bad_md5 ''/incoming/foo_1.0.dsc''
     = Inl (ChecksumFailed ''MD5Sum'' ''foo_1.0.dsc'' ''md5-dsc'') \<and>
   prefix ''MD5Sum'' (checksum_failed_message ''MD5Sum'' ''foo_1.0.dsc'' ''md5-dsc'')"
proof -
  have h: "sample_staging ''/incoming/foo_1.0.dsc'' = Some ''dsc''"
    by (simp add: sample_staging_def)
  have ev: "verify_hashes sample_hashes sample_staging dsc_bad_md5 ''/incoming/foo_1.0.dsc''
              = Inl (ChecksumFailed ''MD5Sum'' ''foo_1.0.dsc'' ''md5-dsc'')"
    by (simp add: verify_hashes_def sample_staging_def sample_hashes_def dsc_bad_md5_def
        dsc_no_sha512_def hash_okay_def)
  have ok: "\<forall>(t, v) \<in> set (short_hashes ''dsc''). hash_okay dsc_no_sha512 t v = Some True"
    by (simp add: short_hashes_def hash_okay_def dsc_no_sha512_def)
  have len: "length (short_hashes ''dsc'') < 4"
    by (simp add: short_hashes_def)
  have mis: "hash_okay dsc_bad_md5 ''MD5Sum'' ''md5-dsc'' = Some False"
    by (simp add: hash_okay_def dsc_bad_md5_def dsc_no_sha512_def)
  have mem: "(''MD5Sum'', ''md5-dsc'') \<in> set (sample_hashes ''dsc'')"
    by (simp add: sample_hashes_def)
  from verify_hashes_outcomes[of sample_staging "''/incoming/foo_1.0.dsc''" "''dsc''" short_hashes dsc_no_sha512, OF h] ok len
  have a: "verify_hashes short_hashes sample_staging dsc_no_sha512 ''/incoming/foo_1.0.dsc''
             = Inl InsufficientHashes"
    by blast
  from verify_hashes_outcomes[of sample_staging "''/incoming/foo_1.0.dsc''" "''dsc''" sample_hashes dsc_bad_md5, OF h] ev
  have b: "prefix ''MD5Sum'' (checksum_failed_message ''MD5Sum'' ''foo_1.0.dsc'' ''md5-dsc'')"
    by blast
  from h len a mem mis ev b show ?thesis by blast
qed

text \<open>
  C4 fails on the code, in both halves. The file declares the MD5 digest \<open>md5-other\<close>
  and APT computes \<open>md5-dsc\<close>: the message of the failure gives the computed digest
  under the word \<open>expected\<close>, and the declared digest is nowhere in it. The file that
  declares only its MD5 digest and its size, two checks, does not fail with the
  insufficient-hashes error: APT computes its five hashes whatever is declared, and the
  first undeclared digest, compared with the computed one, fails as a mismatch of SHA1.
\<close>

theorem verify_hashes_wrong_diagnostic:
  "verify_hashes sample_hashes sample_staging dsc_bad_md5 ''/incoming/foo_1.0.dsc''
     = Inl (ChecksumFailed ''MD5Sum'' ''foo_1.0.dsc'' ''md5-dsc'') \<and>
   af_md5sum dsc_bad_md5 = Some ''md5-other'' \<and>
   sublist ''(expected md5-dsc)'' (checksum_failed_message ''MD5Sum'' ''foo_1.0.dsc'' ''md5-dsc'') \<and>
   \<not> sublist ''md5-other'' (checksum_failed_message ''MD5Sum'' ''foo_1.0.dsc'' ''md5-dsc'') \<and>
   af_sha1sum dsc_truncated = None \<and> af_sha256sum dsc_truncated = None \<and>
   af_sha512sum dsc_truncated = None \<and>
   verify_hashes sample_hashes sample_staging dsc_truncated ''/incoming/foo_1.0.dsc''
     = Inl (ChecksumFailed ''SHA1'' ''foo_1.0.dsc'' ''sha1-dsc'')"
  by (simp add: verify_hashes_def sample_staging_def sample_hashes_def dsc_bad_md5_def
      dsc_truncated_def dsc_no_sha512_def hash_okay_def checksum_failed_message_def sublist_Cons_right)

section \<open>Properties of the repository reader\<close>

lemma and_then_Inr: "and_then m f = Inr y \<longleftrightarrow> (\<exists>x. m = Inr x \<and> f x = Inr y)"
  by (cases m) (simp_all add: and_then_def)

lemma stanza_item_Inr: "stanza_item e k = Inr v \<longleftrightarrow> stanza_get e k = Some v"
  by (simp add: stanza_item_def stanza_get_def split: option.splits)

lemma build_name:
  "build_binary_package env suite component arch e n v = Inr pkg \<Longrightarrow>
     ebp_name pkg = n \<and> ebp_version pkg = v \<and> ebp_architecture pkg = arch"
  by (auto simp: build_binary_package_def and_then_Inr split: prod.splits)

lemma read_stanza_skip:
  "read_binary_stanza env rname tf_fname suite component arch e = Inr None \<Longrightarrow> \<not> arch_wanted arch e"
  by (auto simp: read_binary_stanza_def and_then_Inr stanza_item_Inr arch_wanted_def Let_def
      split: if_splits)

lemma read_stanza_keep:
  assumes "read_binary_stanza env rname tf_fname suite component arch e = Inr (Some (pkg, ws))"
  shows "arch_wanted arch e" "ebp_name pkg = get_or e ''Package'' []" "ebp_version pkg = get_or e ''Version'' []"
    "filter is_arch_warning ws = (if arch_mismatch arch e then [arch_warning_of rname arch e] else [])"
  using assms
  by (auto simp: read_binary_stanza_def and_then_Inr stanza_item_Inr arch_wanted_def
      arch_mismatch_def arch_warning_of_def Let_def get_or_def stanza_get_def is_arch_warning_def
      split: if_splits dest: build_name)

text \<open>
  C9. When the listing returns, the packages are, in order, those of the stanzas wanted: a
  stanza that declares \<open>all\<close> is in the result when \<open>all\<close> is requested and is skipped
  otherwise (and with \<open>all\<close> requested nothing else is in the result). The architecture
  warnings are, in order, those of the stanzas that disagree with the requested architecture
  where neither is \<open>all\<close>, and each of these stanzas is wanted: it is kept and flagged.
\<close>

theorem read_binary_packages_arch:
  assumes "read_binary_packages_from_tf env rname tf tf_fname suite component arch = Inr (pkgs, warns)"
  shows "map (\<lambda>p. (ebp_name p, ebp_version p)) pkgs
           = map (\<lambda>e. (get_or e ''Package'' [], get_or e ''Version'' [])) (filter (arch_wanted arch) tf) \<and>
         filter is_arch_warning warns
           = map (arch_warning_of rname arch) (filter (arch_mismatch arch) (filter (arch_wanted arch) tf)) \<and>
         (\<forall>e \<in> set tf. arch_mismatch arch e \<longrightarrow> arch_wanted arch e)"
  using assms
proof (induction tf arbitrary: pkgs warns)
  case Nil
  then show ?case by simp
next
  case (Cons e tf)
  from Cons.prems obtain r where r: "read_binary_stanza env rname tf_fname suite component arch e = Inr r"
    by (auto split: sum.splits)
  have mm: "arch_mismatch arch e \<longrightarrow> arch_wanted arch e"
    by (auto simp: arch_mismatch_def arch_wanted_def)
  show ?case
  proof (cases r)
    case None
    with r Cons.prems have t: "read_binary_packages_from_tf env rname tf tf_fname suite component arch = Inr (pkgs, warns)"
      by simp
    from r None have "\<not> arch_wanted arch e" by (simp add: read_stanza_skip)
    with Cons.IH[OF t] mm show ?thesis by simp
  next
    case (Some pw)
    obtain pkg ws where pw: "pw = (pkg, ws)" by (cases pw)
    from r Some pw Cons.prems obtain pkgs' warns' where
      t: "read_binary_packages_from_tf env rname tf tf_fname suite component arch = Inr (pkgs', warns')"
      and eq: "pkgs = pkg # pkgs'" "warns = ws @ warns'"
      by (auto split: sum.splits)
    from r Some pw have k: "read_binary_stanza env rname tf_fname suite component arch e = Inr (Some (pkg, ws))"
      by simp
    from read_stanza_keep[OF k] Cons.IH[OF t] eq mm show ?thesis by simp
  qed
qed

text \<open>
  The theorem on the sample index: for \<open>amd64\<close> the arm64 stanza is kept with a warning and
  the \<open>all\<close> stanza is skipped; for \<open>all\<close> only the \<open>all\<close> stanza is kept.
\<close>

theorem read_binary_packages_arch_witness:
  "(case read_binary_packages_from_tf sample_reader_env ''origin'' sample_index ''Packages'' ''unstable'' ''main'' ''amd64'' of
      Inl err \<Rightarrow> False
    | Inr (pkgs, warns) \<Rightarrow>
        map (\<lambda>p. (ebp_name p, ebp_version p)) pkgs = [(''foo'', ''1.0''), (''bar'', ''1.0'')] \<and>
        filter is_arch_warning warns = [UnexpectedArchitecture ''origin'' ''bar'' ''1.0'' ''arm64'' ''amd64'']) \<and>
   (case read_binary_packages_from_tf sample_reader_env ''origin'' sample_index ''Packages'' ''unstable'' ''main'' ''all'' of
      Inl err \<Rightarrow> False
    | Inr (pkgs, warns) \<Rightarrow>
        map (\<lambda>p. (ebp_name p, ebp_version p)) pkgs = [(''foo-data'', ''1.0'')] \<and>
        filter is_arch_warning warns = [])"
proof -
  have "\<exists>r. read_binary_packages_from_tf sample_reader_env ''origin'' sample_index ''Packages'' ''unstable'' ''main'' ''amd64'' = Inr r"
    by (simp add: sample_index_def sample_stanza_def sample_reader_env_def read_binary_stanza_def
        build_binary_package_def and_then_def stanza_item_def stanza_get_def get_or_def int_of_def
        reader_source_def endswith_def)
  then obtain pkgs warns where a: "read_binary_packages_from_tf sample_reader_env ''origin'' sample_index ''Packages'' ''unstable'' ''main'' ''amd64'' = Inr (pkgs, warns)"
    by auto
  have "\<exists>r. read_binary_packages_from_tf sample_reader_env ''origin'' sample_index ''Packages'' ''unstable'' ''main'' ''all'' = Inr r"
    by (simp add: sample_index_def sample_stanza_def sample_reader_env_def read_binary_stanza_def
        build_binary_package_def and_then_def stanza_item_def stanza_get_def get_or_def int_of_def
        reader_source_def endswith_def)
  then obtain pkgs' warns' where b: "read_binary_packages_from_tf sample_reader_env ''origin'' sample_index ''Packages'' ''unstable'' ''main'' ''all'' = Inr (pkgs', warns')"
    by auto
  have f: "map (\<lambda>p. (ebp_name p, ebp_version p)) pkgs = [(''foo'', ''1.0''), (''bar'', ''1.0'')] \<and>
        filter is_arch_warning warns = [UnexpectedArchitecture ''origin'' ''bar'' ''1.0'' ''arm64'' ''amd64'']"
    using read_binary_packages_arch[OF a]
    by (simp add: sample_index_def sample_stanza_def arch_wanted_def arch_mismatch_def
        arch_warning_of_def stanza_get_def get_or_def)
  have g: "map (\<lambda>p. (ebp_name p, ebp_version p)) pkgs' = [(''foo-data'', ''1.0'')] \<and>
        filter is_arch_warning warns' = []"
    using read_binary_packages_arch[OF b]
    by (simp add: sample_index_def sample_stanza_def arch_wanted_def arch_mismatch_def
        arch_warning_of_def stanza_get_def get_or_def)
  from f g show ?thesis by (simp add: a b)
qed

section \<open>Properties of the Source field\<close>

lemma parsers_agree: "importer_source_of e n v = reader_source_of e n v"
  by (simp add: importer_source_of_def reader_source_of_def importer_source_def reader_source_def
      stanza_get_def stanza_pop_default_def split: option.splits)

lemma takeWhile_neq_append:
  "c \<notin> set xs \<Longrightarrow> takeWhile (\<lambda>x. x \<noteq> c) (xs @ ys) = xs @ takeWhile (\<lambda>x. x \<noteq> c) ys"
  by (induction xs) auto

lemma index_open:
  "CHR ''('' \<notin> set sn \<Longrightarrow> py_index (sn @ '' ('' @ rest) (CHR ''('') = Some (length sn + 1)"
  by (simp add: py_index_def takeWhile_neq_append)

lemma index_close:
  "CHR '')'' \<notin> set sn \<Longrightarrow> CHR '')'' \<notin> set sv \<Longrightarrow>
   py_index (sn @ '' ('' @ sv @ '')'') (CHR '')'') = Some (length sn + 2 + length sv)"
  using takeWhile_neq_append[of "CHR '')''" "sn @ '' ('' @ sv" "'')''"]
  by (simp add: py_index_def)

lemma slice_name: "py_slice (sn @ '' ('' @ rest) 0 (int (length sn + 1) - 1) = sn"
  by (simp add: py_slice_def py_bound_def)

lemma slice_version:
  "py_slice (sn @ '' ('' @ sv @ '')'') (int (length sn + 1) + 1) (int (length sn + 2 + length sv)) = sv"
proof -
  have "drop (length sn + 2) (sn @ '' ('' @ sv @ '')'') = sv @ '')''" by simp
  then show ?thesis
    by (simp add: py_slice_def py_bound_def nat_add_distrib)
qed

lemma both_case:
  assumes "is_word sn" "is_word sv"
  shows "reader_source (Some (sn @ '' ('' @ sv @ '')'')) n v = Inr (sn, sv)"
proof -
  from assms have a: "CHR ''('' \<notin> set sn" "CHR '')'' \<notin> set sn" "CHR '')'' \<notin> set sv"
    and s: "py_strip sn = sn" "py_strip sv = sv"
    by (simp_all add: is_word_def)
  show ?thesis
    unfolding reader_source_def
    using index_open[OF a(1), of "sv @ '')''"] index_close[OF a(2) a(3)] s
      slice_name[of sn "sv @ '')''"] slice_version[of sn sv]
    by (simp add: Let_def)
qed

lemma spec_refines: "source_field_spec sid n v r \<Longrightarrow> reader_source sid n v = Inr r"
proof (induction rule: source_field_spec.induct)
  case (both sn sv name version)
  then show ?case by (rule both_case)
qed (simp_all add: reader_source_def)

text \<open>
  A value without the space before the parenthesis is not of the form \<open>name (version)\<close>:
  the slice drops the last character of the name.
\<close>

lemma source_value_without_space:
  "reader_source (Some ''foo(1.0)'') ''foo-data'' ''1.0+b1'' = Inr (''fo'', ''1.0'')"
  by (simp add: reader_source_def py_index_def py_slice_def py_bound_def py_strip_def is_space_def)

text \<open>
  C10. The parser of the repository reader and the parser of the importer give the same
  result on every stanza, the \<^verbatim>\<open>ValueError\<close> of a value without closing parenthesis
  included, and both give what the specification says for its three forms of the field.
\<close>

theorem source_parsers_agree:
  "importer_source_of e n v = reader_source_of e n v \<and>
   (\<forall>r. source_field_spec (stanza_get e ''Source'') n v r \<longrightarrow>
        reader_source_of e n v = Inr r \<and> importer_source_of e n v = Inr r)"
  using parsers_agree[of e n v] spec_refines[of "stanza_get e ''Source''" n v]
  by (simp add: reader_source_of_def)

theorem source_parsers_agree_witness:
  "source_field_spec (stanza_get [(''Package'', ''foo-data''), (''Source'', ''foo (1.0-2)'')] ''Source'')
     ''foo-data'' ''1.0-2+b1'' (''foo'', ''1.0-2'') \<and>
   importer_source_of [(''Package'', ''foo-data''), (''Source'', ''foo (1.0-2)'')] ''foo-data'' ''1.0-2+b1''
     = Inr (''foo'', ''1.0-2'') \<and>
   reader_source_of [(''Package'', ''foo-data''), (''Source'', ''foo (1.0-2)'')] ''foo-data'' ''1.0-2+b1''
     = Inr (''foo'', ''1.0-2'')"
proof -
  have w: "is_word ''foo''" "is_word ''1.0-2''"
    by (simp_all add: is_word_def py_strip_def is_space_def)
  have s: "source_field_spec (stanza_get [(''Package'', ''foo-data''), (''Source'', ''foo (1.0-2)'')] ''Source'')
     ''foo-data'' ''1.0-2+b1'' (''foo'', ''1.0-2'')"
    using source_field_spec.both[OF w, of "''foo-data''" "''1.0-2+b1''"] by (simp add: stanza_get_def)
  with source_parsers_agree[of "[(''Package'', ''foo-data''), (''Source'', ''foo (1.0-2)'')]" "''foo-data''" "''1.0-2+b1''"]
  show ?thesis by blast
qed

section \<open>Properties of the importer\<close>

lemma and_then_simps [simp]: "and_then (Inl e) f = Inl e" "and_then (Inr x) f = f x"
  by (simp_all add: and_then_def)

lemma map_of_stanza_remove: "k' \<noteq> k \<Longrightarrow> map_of (stanza_remove d k) k' = map_of d k'"
  by (induction d) (auto simp: stanza_remove_def)

lemma source_control_regression:
  assumes "stanza_get (src_fields src) ''Package'' = Some pkgname"
    and "stanza_get (src_fields src) ''Version'' = Some version"
    and "version_memory st (rss_repo_id r, pkgname) = Some highest"
    and "debversion env version < debversion env highest"
  shows "source_control env r st src component_name = Inl (VersionRegression pkgname highest)"
  using assms
  by (simp add: source_control_def stanza_pop_def stanza_get_def map_of_stanza_remove version_check_def)

lemma new_queue_entry_none:
  "(rss_suite_id r, rss_repo_id r, n, v) \<notin> set (queue_new st) \<Longrightarrow> new_queue_entry r st n v = Inr None"
proof -
  assume a: "(rss_suite_id r, rss_repo_id r, n, v) \<notin> set (queue_new st)"
  have "filter (\<lambda>(dest, key). dest = rss_suite_id r \<and> key = (rss_repo_id r, n, v)
                                       \<and> source_packages st key \<noteq> None) (queue_new st) = []"
    using a by (auto simp: filter_empty_conv)
  then show ?thesis by (simp add: new_queue_entry_def one_or_none_def)
qed












lemma copy_or_move_result:
  "copy_or_move keep src dst True files = (Inr (), files') \<Longrightarrow> files' dst = files src \<and> files src \<noteq> None"
  by (auto simp: copy_or_move_def Let_def split: option.splits if_splits)

lemmas sample_defs = sample_env_def sample_rss_def sample_state_def sample_dsc_def sample_deb_def
  crafted_deb_def crafted_state_def unclassified_state_def
  sample_changes_def sample_uploader_def sample_source_def sample_hashes_def new_source_package_def
  published_state_def seen_state_def occupied_state_def new_state_def

lemmas source_defs = source_control_def and_then_def
  stanza_pop_def stanza_remove_def stanza_pop_default_def pop_split_def version_check_def
  one_def one_or_none_def new_queue_entry_def source_fields_def expected_binaries_def
  source_files_def sums_pop_def checksums_list_to_file_def merge_entry_def set_checksum_def
  new_archive_file_def drop_old_files_def drop_old_file_def verify_hashes_def hash_okay_def
  route_source_def check_overrides_source_def has_override_def register_package_overrides_def
  copy_or_move_def finish_source_def package_mark_published_def path_join_def path_dirname_def
  path_basename_def py_split_def Let_def

lemmas binary_defs = binary_control_def find_source_def
  published_source_def binary_file_def binary_pool_fname_def binary_register_def pop_relations_def importer_source_def
  path_ext_def deb_type_str_def py_strip_def is_space_def

lemma sample_binary_control:
  "\<exists>h. binary_control st sample_deb = Inr h \<and> bh_pkgname h = ''foo'' \<and> bh_version h = ''1.0'' \<and>
       bh_source_name h = ''foo'' \<and> bh_source_version h = ''1.0'' \<and> bh_architecture h = ''amd64'' \<and>
       map_of (bh_tf h) = map_of (filter (\<lambda>kv. fst kv \<notin> {''Package'', ''Version'', ''Architecture'', ''Maintainer'', ''Installed-Size''}) sample_deb)"
  if "architectures st = [''amd64'', ''all'']" for st
  using that
  by (simp add: sample_defs source_defs binary_defs)

text \<open>
  C5 fails on the code. A file whose MD5, SHA1 and SHA256 digests and size match, declared
  without a SHA512 digest, fails verification at the SHA512 hash that APT computes, since
  the absent digest is compared with the computed one. So the import of a .dsc without
  Checksums-Sha512 fails with the checksum error for SHA512, where the same .dsc that
  declares the SHA512 digests is imported.
\<close>

theorem verify_hashes_missing_sha512:
  "verify_hashes sample_hashes sample_staging dsc_no_sha512 ''/incoming/foo_1.0.dsc''
     = Inl (ChecksumFailed ''SHA512'' ''foo_1.0.dsc'' ''sha512-dsc'') \<and>
   import_source sample_env_no_sha512 False sample_rss sample_state ''/incoming/foo_1.0.dsc''
       (Some ''main'') DEFAULT
     = (Inl (ChecksumFailed ''SHA512'' ''foo_1.0.dsc'' ''sha512-dsc''), sample_state) \<and>
   fst (import_source sample_env False sample_rss sample_state ''/incoming/foo_1.0.dsc''
       (Some ''main'') DEFAULT) = Inr ()"
  by (simp add: verify_hashes_def sample_staging_def dsc_no_sha512_def hash_okay_def
      sample_env_no_sha512_def sample_defs source_defs import_source_def source_prepare_def)

text \<open>
  The version memory under \<^verbatim>\<open>import_source\<close>: a successful import leaves every entry
  at a version that is not smaller than before.
\<close>

lemma version_check_ok:
  "version_check env r st n v = Inr () \<Longrightarrow> version_memory st (rss_repo_id r, n) = Some old
     \<Longrightarrow> debversion env old \<le> debversion env v"
  by (auto simp: version_check_def split: if_splits)

lemma source_control_checked:
  "source_control env r st src c = Inr h \<Longrightarrow> version_check env r st (sh_pkgname h) (sh_version h) = Inr ()"
  by (auto simp: source_control_def and_then_Inr)

lemma drop_old_file_vm: "version_memory (drop_old_file r st f) = version_memory st"
  by (simp add: drop_old_file_def Let_def)

lemma foldl_drop_old_vm: "version_memory (foldl (drop_old_file r) st old) = version_memory st"
  by (induction old arbitrary: st) (simp_all add: drop_old_file_vm)

lemma drop_old_files_vm: "version_memory (snd (drop_old_files r key spkg st)) = version_memory st"
  by (simp add: drop_old_files_def Let_def foldl_drop_old_vm)

lemma route_source_vm:
  "route_source r policy key nq spkg st = (is_new, nq', spkg', st') \<Longrightarrow> version_memory st' = version_memory st"
  by (auto simp: route_source_def Let_def register_package_overrides_def split: if_splits option.splits)

lemma place_files_vm:
  "place_files keep root d is_new todo st = (res, st') \<Longrightarrow> version_memory st' = version_memory st"
proof (induction todo arbitrary: st)
  case Nil
  then show ?case by simp
next
  case (Cons g rest)
  show ?case
  proof (cases "fs st (path_join root (af_fname g))")
    case (Some c)
    with Cons.prems show ?thesis by auto
  next
    case None
    obtain cres files1 where cm: "copy_or_move keep (path_join d (path_basename (af_fname g)))
                      (path_join root (af_fname g)) is_new (fs st) = (cres, files1)"
      by (cases "copy_or_move keep (path_join d (path_basename (af_fname g)))
                      (path_join root (af_fname g)) is_new (fs st)")
    show ?thesis
    proof (cases cres)
      case (Inl e)
      with Cons.prems None cm show ?thesis by auto
    next
      case (Inr u)
      with Cons.prems None cm
      have "place_files keep root d is_new rest (st\<lparr>fs := files1, archive_files := archive_files st @ [g]\<rparr>) = (res, st')"
        by simp
      from Cons.IH[OF this] show ?thesis by simp
    qed
  qed
qed

lemma source_prepare_vm:
  assumes "source_prepare env r st dsc_fname component_name policy = Inr pl"
  shows "version_memory (pl_state pl) = version_memory st \<and>
         fst (pl_key pl) = rss_repo_id r \<and>
         version_check env r st (fst (snd (pl_key pl))) (snd (snd (pl_key pl))) = Inr ()"
proof -
  from assms obtain src where rs: "render_sources env dsc_fname (fs st dsc_fname) = Inr src"
    by (auto simp: source_prepare_def split: sum.splits)
  with assms obtain h where
    sc: "source_control env r st src component_name = Inr h"
    by (auto simp: source_prepare_def split: sum.splits)
  define key where "key = (rss_repo_id r, sh_pkgname h, sh_version h)"
  obtain spkg1 st1 where d: "drop_old_files r key (sh_spkg h) st = (spkg1, st1)"
    by (cases "drop_old_files r key (sh_spkg h) st")
  from assms rs sc d obtain files_todo where
    vf: "verify_files env (fs st1) (path_dirname dsc_fname) (sp_directory spkg1) (map snd (sh_files h)) = Inr files_todo"
    by (auto simp: source_prepare_def key_def Let_def split: sum.splits)
  obtain is_new nq spkg2 st2 where
    rt: "route_source r policy key (sh_nq_entry h) (spkg1\<lparr>sp_files := files_todo\<rparr>) st1 = (is_new, nq, spkg2, st2)"
    by (cases "route_source r policy key (sh_nq_entry h) (spkg1\<lparr>sp_files := files_todo\<rparr>) st1") auto
  have pl: "pl = \<lparr>pl_key = key, pl_is_new = is_new, pl_nq_entry = nq,
                          pl_spkg = spkg2, pl_files_todo = files_todo, pl_tf = sh_tf h,
                          pl_state = st2\<rparr>"
    using assms rs sc d vf rt
    by (simp add: source_prepare_def key_def Let_def)
  from drop_old_files_vm[of r key "sh_spkg h" st] d have "version_memory st1 = version_memory st" by simp
  with route_source_vm[OF rt] pl source_control_checked[OF sc] show ?thesis by (simp add: key_def)
qed

lemma finish_source_vm:
  assumes "finish_source r key is_new nq spkg tf st = (Inr (), st')"
  shows "version_memory st' = (if is_new then version_memory st
                               else (version_memory st)((rss_repo_id r, fst (snd key)) \<mapsto> snd (snd key)))"
  using assms
  by (auto simp: finish_source_def Let_def package_mark_published_def split: option.splits sum.splits if_splits)

lemma import_source_version_memory_monotone:
  assumes "import_source env keep r st dsc_fname component_name policy = (Inr (), st')"
    and "version_memory st k = Some old"
  shows "\<exists>new. version_memory st' k = Some new \<and> debversion env old \<le> debversion env new"
proof -
  from assms(1) obtain pl where sp: "source_prepare env r st dsc_fname component_name policy = Inr pl"
    by (auto simp: import_source_def split: sum.splits)
  let ?root = "if pl_is_new pl then rss_new_queue_dir r else rss_root_dir r"
  obtain pres st3 where pf: "place_files keep ?root (path_dirname dsc_fname) (pl_is_new pl)
                               (pl_files_todo pl) (pl_state pl) = (pres, st3)"
    by (cases "place_files keep ?root (path_dirname dsc_fname) (pl_is_new pl)
                               (pl_files_todo pl) (pl_state pl)")
  with assms(1) sp have fin: "finish_source r (pl_key pl) (pl_is_new pl) (pl_nq_entry pl) (pl_spkg pl) (pl_tf pl) st3 = (Inr (), st')"
    by (cases pres) (simp_all add: import_source_def)
  from source_prepare_vm[OF sp] place_files_vm[OF pf]
  have vm3: "version_memory st3 = version_memory st"
    and rk: "fst (pl_key pl) = rss_repo_id r"
    and chk: "version_check env r st (fst (snd (pl_key pl))) (snd (snd (pl_key pl))) = Inr ()"
    by simp_all
  show ?thesis
  proof (cases "\<not> pl_is_new pl \<and> k = (rss_repo_id r, fst (snd (pl_key pl)))")
    case True
    with assms(2) version_check_ok[OF chk, of old]
    have "debversion env old \<le> debversion env (snd (snd (pl_key pl)))" by simp
    with True finish_source_vm[OF fin] show ?thesis by simp
  next
    case False
    with finish_source_vm[OF fin] vm3 assms(2) have "version_memory st' k = Some old"
      by (auto split: if_splits)
    then show ?thesis by simp
  qed
qed

text \<open>
  C1 fails on the code. \<^verbatim>\<open>import_binary\<close> marks the package as published without looking
  at the version memory: the archive has the source \<open>foo 1.0\<close> in the suite and has seen
  \<open>foo 2.0\<close>; the import of the binary package \<open>foo 1.0\<close> succeeds and the version
  memory of \<open>foo\<close> goes from \<open>2.0\<close> down to \<open>1.0\<close>.
\<close>

theorem import_binary_lowers_version_memory:
  "version_memory published_state (1, ''foo'') = Some ''2.0'' \<and>
   fst (import_binary sample_env False sample_rss published_state ''/incoming/foo_1.0_amd64.deb''
          (Some ''main'')) = Inr () \<and>
   version_memory (snd (import_binary sample_env False sample_rss published_state
          ''/incoming/foo_1.0_amd64.deb'' (Some ''main''))) (1, ''foo'') = Some ''1.0'' \<and>
   debversion sample_env ''1.0'' < debversion sample_env ''2.0''"
  by (simp add: sample_defs source_defs binary_defs import_binary_def binary_checks_def)

text \<open>
  C2 as stated fails: the version memory holds \<open>foo 1.0\<close>, the version proposed; the
  import of the source succeeds and the .dsc is in the pool afterwards.
\<close>

theorem import_source_equal_version_counterexample:
  "version_memory seen_state (1, ''foo'') = Some ''1.0'' \<and>
   debversion sample_env ''1.0'' \<le> debversion sample_env ''1.0'' \<and>
   fst (import_source sample_env False sample_rss seen_state ''/incoming/foo_1.0.dsc''
          (Some ''main'') DEFAULT) = Inr () \<and>
   fs seen_state ''/archive/pool/main/f/foo/foo_1.0.dsc'' = None \<and>
   fs (snd (import_source sample_env False sample_rss seen_state ''/incoming/foo_1.0.dsc''
          (Some ''main'') DEFAULT)) ''/archive/pool/main/f/foo/foo_1.0.dsc'' = Some ''dsc''"
  by (simp add: sample_defs source_defs import_source_def source_prepare_def)

text \<open>
  C2, as the code has it. A source import whose package has a strictly greater version in
  the version memory fails with the version-regression error, and the state is the one
  before: no row and no file is created or changed. An upload whose source version is not
  greater than the recorded one is rejected by \<^verbatim>\<open>process_changes\<close> before an import starts,
  with the state unchanged: it returns \<open>accepted = False\<close>, the uploader and the reason.
\<close>

theorem import_source_version_regression:
  "(render_sources env dsc_fname (fs st dsc_fname) = Inr src \<and>
    stanza_get (src_fields src) ''Package'' = Some pkgname \<and>
    stanza_get (src_fields src) ''Version'' = Some version \<and>
    version_memory st (rss_repo_id r, pkgname) = Some highest \<and>
    debversion env version < debversion env highest
    \<longrightarrow> import_source env keep r st dsc_fname component_name policy
          = (Inl (VersionRegression pkgname highest), st)) \<and>
   (parse_changes env fname (fs st fname) = Inr ch \<and>
    filter (\<lambda>u. ch_primary_fingerprint ch \<in> set (up_pgp_fingerprints u)) (uploaders st) = [upl] \<and>
    \<not> ch_weak_signature ch \<and> ch_distributions ch = [suite_name] \<and>
    (ch_sourceful ch \<longrightarrow> up_allow_source_uploads upl) \<and>
    filter (\<lambda>x. rss_repo_id x = repo_id \<and> rss_suite_name x = suite_name) (suite_settings st) = [r] \<and>
    ch_version ch = Some version \<and>
    version_memory st (rss_repo_id r, ch_source_name ch) = Some highest \<and>
    debversion env version \<le> debversion env highest
    \<longrightarrow> process_changes env keep repo_id repo_name st fname
          = (Inr (False, upl, Some (SeenHigherOrEqual highest (ch_source_name ch) repo_name)), st))"
proof (rule conjI; rule impI)
  assume a: "render_sources env dsc_fname (fs st dsc_fname) = Inr src \<and>
    stanza_get (src_fields src) ''Package'' = Some pkgname \<and>
    stanza_get (src_fields src) ''Version'' = Some version \<and>
    version_memory st (rss_repo_id r, pkgname) = Some highest \<and>
    debversion env version < debversion env highest"
  then have "source_control env r st src component_name = Inl (VersionRegression pkgname highest)"
    by (simp add: source_control_regression)
  with a show "import_source env keep r st dsc_fname component_name policy
          = (Inl (VersionRegression pkgname highest), st)"
    by (simp add: import_source_def source_prepare_def)
next
  assume "parse_changes env fname (fs st fname) = Inr ch \<and>
    filter (\<lambda>u. ch_primary_fingerprint ch \<in> set (up_pgp_fingerprints u)) (uploaders st) = [upl] \<and>
    \<not> ch_weak_signature ch \<and> ch_distributions ch = [suite_name] \<and>
    (ch_sourceful ch \<longrightarrow> up_allow_source_uploads upl) \<and>
    filter (\<lambda>x. rss_repo_id x = repo_id \<and> rss_suite_name x = suite_name) (suite_settings st) = [r] \<and>
    ch_version ch = Some version \<and>
    version_memory st (rss_repo_id r, ch_source_name ch) = Some highest \<and>
    debversion env version \<le> debversion env highest"
  then show "process_changes env keep repo_id repo_name st fname
          = (Inr (False, upl, Some (SeenHigherOrEqual highest (ch_source_name ch) repo_name)), st)"
    by (simp add: process_changes_def one_or_none_def one_def)
qed

text \<open>
  The theorem on the samples: \<open>foo 1.0\<close> against the recorded \<open>2.0\<close> in the importer,
  and the upload of \<open>foo 1.0\<close> against the recorded \<open>1.0\<close> in the upload handler.
\<close>

theorem import_source_version_regression_witness:
  "version_memory published_state (1, ''foo'') = Some ''2.0'' \<and>
   debversion sample_env ''1.0'' < debversion sample_env ''2.0'' \<and>
   import_source sample_env False sample_rss published_state ''/incoming/foo_1.0.dsc''
       (Some ''main'') DEFAULT = (Inl (VersionRegression ''foo'' ''2.0''), published_state) \<and>
   version_memory seen_state (1, ''foo'') = Some ''1.0'' \<and>
   debversion sample_env ''1.0'' \<le> debversion sample_env ''1.0'' \<and>
   process_changes sample_env False 1 ''master'' seen_state ''/incoming/foo_1.0_amd64.changes''
     = (Inr (False, sample_uploader, Some (SeenHigherOrEqual ''1.0'' ''foo'' ''master'')), seen_state)"
proof -
  have a: "render_sources sample_env ''/incoming/foo_1.0.dsc'' (fs published_state ''/incoming/foo_1.0.dsc'') = Inr sample_dsc \<and>
    stanza_get (src_fields sample_dsc) ''Package'' = Some ''foo'' \<and>
    stanza_get (src_fields sample_dsc) ''Version'' = Some ''1.0'' \<and>
    version_memory published_state (rss_repo_id sample_rss, ''foo'') = Some ''2.0'' \<and>
    debversion sample_env ''1.0'' < debversion sample_env ''2.0''"
    by (simp add: sample_defs stanza_get_def)
  have b: "parse_changes sample_env ''/incoming/foo_1.0_amd64.changes'' (fs seen_state ''/incoming/foo_1.0_amd64.changes'') = Inr sample_changes \<and>
    filter (\<lambda>u. ch_primary_fingerprint sample_changes \<in> set (up_pgp_fingerprints u)) (uploaders seen_state) = [sample_uploader] \<and>
    \<not> ch_weak_signature sample_changes \<and> ch_distributions sample_changes = [''unstable''] \<and>
    (ch_sourceful sample_changes \<longrightarrow> up_allow_source_uploads sample_uploader) \<and>
    filter (\<lambda>x. rss_repo_id x = 1 \<and> rss_suite_name x = ''unstable'') (suite_settings seen_state) = [sample_rss] \<and>
    ch_version sample_changes = Some ''1.0'' \<and>
    version_memory seen_state (rss_repo_id sample_rss, ch_source_name sample_changes) = Some ''1.0'' \<and>
    debversion sample_env ''1.0'' \<le> debversion sample_env ''1.0''"
    by (simp add: sample_defs)
  have n: "ch_source_name sample_changes = ''foo''" "rss_repo_id sample_rss = 1"
    by (simp_all add: sample_defs)
  from import_source_version_regression[where env = sample_env and dsc_fname = "''/incoming/foo_1.0.dsc''"
      and st = published_state and src = sample_dsc and pkgname = "''foo''" and version = "''1.0''"
      and r = sample_rss and highest = "''2.0''" and keep = False and component_name = "Some ''main''"
      and policy = DEFAULT]
  have c: "import_source sample_env False sample_rss published_state ''/incoming/foo_1.0.dsc''
       (Some ''main'') DEFAULT = (Inl (VersionRegression ''foo'' ''2.0''), published_state)"
    using a by blast
  from import_source_version_regression[where env = sample_env and st = seen_state
      and version = "''1.0''" and r = sample_rss and highest = "''1.0''" and keep = False
      and fname = "''/incoming/foo_1.0_amd64.changes''" and ch = sample_changes
      and upl = sample_uploader and suite_name = "''unstable''" and repo_id = 1
      and repo_name = "''master''"]
  have d: "process_changes sample_env False 1 ''master'' seen_state ''/incoming/foo_1.0_amd64.changes''
     = (Inr (False, sample_uploader, Some (SeenHigherOrEqual ''1.0'' ''foo'' ''master'')), seen_state)"
    using b n by simp
  from a b c d n show ?thesis by simp
qed






lemma path_join_relative:
  "b = [] \<or> hd b \<noteq> CHR ''/'' \<Longrightarrow> prefix a (path_join a b)"
  by (auto simp: path_join_def)




text \<open>
  The NEW branch of \<^verbatim>\<open>import_binary\<close>. A binary import whose source package is not among
  those of the suite and is found through an entry of the NEW queue changes no table: the
  state after it, whether the import succeeds or fails, is the state before with another
  file system; no binary package and no archive file is added, the version memory and the
  flag of pending changes are as before. When it succeeds, the file is at the join of the
  NEW-queue directory and its name in the pool, with the content of the uploaded file, and
  it succeeds whenever the checksums verify and the upload is not already that file. (By
  \<open>path_join_relative\<close> that place is under the NEW-queue directory when the name is
  relative.)
\<close>

lemma import_binary_new_is_inert:
  assumes "render_packages env deb_fname (fs st deb_fname) = Inr bin_tf"
    and "render_contents env deb_fname (fs st deb_fname) = Inr filelist_raw"
    and "binary_control st bin_tf = Inr h"
    and "published_source r st (bh_source_name h) (bh_source_version h) = None"
    and "new_queue_entry r st (bh_source_name h) (bh_source_version h) = Inr (Some entry)"
  shows "snd (import_binary env keep r st deb_fname component_name)
           = st\<lparr>fs := fs (snd (import_binary env keep r st deb_fname component_name))\<rparr> \<and>
         binary_packages (snd (import_binary env keep r st deb_fname component_name)) = binary_packages st \<and>
         archive_files (snd (import_binary env keep r st deb_fname component_name)) = archive_files st \<and>
         version_memory (snd (import_binary env keep r st deb_fname component_name)) = version_memory st \<and>
         changes_pending (snd (import_binary env keep r st deb_fname component_name)) = changes_pending st \<and>
         (fst (import_binary env keep r st deb_fname component_name) = Inr () \<longrightarrow>
            (\<exists>af tf. binary_file env deb_fname h (snd entry) = Inr (af, tf) \<and>
               fs (snd (import_binary env keep r st deb_fname component_name))
                  (path_join (rss_new_queue_dir r) (af_fname af)) = fs st deb_fname \<and>
               fs st deb_fname \<noteq> None)) \<and>
         (\<forall>af tf. binary_file env deb_fname h (snd entry) = Inr (af, tf) \<and>
               verify_hashes (apt_hashes env) (fs st) af deb_fname = Inr () \<and>
               deb_fname \<noteq> path_join (rss_new_queue_dir r) (af_fname af)
               \<longrightarrow> fst (import_binary env keep r st deb_fname component_name) = Inr ())"
proof -
  obtain dest key where e: "entry = (dest, key)" by (cases entry)
  from assms e have fsrc: "find_source r st h = Inr (key, True)"
    by (simp add: find_source_def)
  let ?res = "import_binary env keep r st deb_fname component_name"
  show ?thesis
  proof (cases "binary_file env deb_fname h key")
    case (Inl err)
    with assms fsrc have "?res = (Inl err, st)"
      by (simp add: import_binary_def binary_checks_def)
    with Inl e show ?thesis by simp
  next
    case (Inr aftf)
    obtain af tf where aftf: "aftf = (af, tf)" by (cases aftf)
    show ?thesis
    proof (cases "verify_hashes (apt_hashes env) (fs st) af deb_fname")
      case (Inl err)
      with assms fsrc Inr aftf have "?res = (Inl err, st)"
        by (simp add: import_binary_def binary_checks_def)
      with Inl Inr aftf e show ?thesis by simp
    next
      case ok: (Inr u)
      with assms fsrc Inr aftf have bc: "binary_checks env r st deb_fname component_name = Inr (af, None)"
        by (simp add: binary_checks_def)
      obtain res files1 where cm: "copy_or_move keep deb_fname (path_join (rss_new_queue_dir r) (af_fname af)) True (fs st) = (res, files1)"
        by (cases "copy_or_move keep deb_fname (path_join (rss_new_queue_dir r) (af_fname af)) True (fs st)")
      with bc have r: "?res = (res, st\<lparr>fs := files1\<rparr>)"
        by (simp add: import_binary_def)
      have ok_fs: "files1 (path_join (rss_new_queue_dir r) (af_fname af)) = fs st deb_fname \<and> fs st deb_fname \<noteq> None"
        if "res = Inr ()"
        using that cm copy_or_move_result by blast
      have succ: "res = Inr ()" if "deb_fname \<noteq> path_join (rss_new_queue_dir r) (af_fname af)"
      proof -
        from ok have "fs st deb_fname \<noteq> None"
          by (auto simp: verify_hashes_def split: option.splits)
        with that cm show ?thesis
          by (auto simp: copy_or_move_def Let_def split: if_splits)
      qed
      from r ok_fs succ Inr aftf e ok show ?thesis by auto
    qed
  qed
qed

text \<open>On the sample archive with \<open>foo 1.0\<close> in the NEW queue.\<close>

lemma import_binary_new_is_inert_sample:
  "published_source sample_rss new_state ''foo'' ''1.0'' = None \<and>
   new_queue_entry sample_rss new_state ''foo'' ''1.0'' = Inr (Some (1, 1, ''foo'', ''1.0'')) \<and>
   fst (import_binary sample_env False sample_rss new_state ''/incoming/foo_1.0_amd64.deb'' (Some ''main''))
     = Inr () \<and>
   fs (snd (import_binary sample_env False sample_rss new_state ''/incoming/foo_1.0_amd64.deb''
              (Some ''main''))) ''/archive-new/pool/main/f/foo/foo_1.0_amd64.deb'' = Some ''deb'' \<and>
   binary_packages (snd (import_binary sample_env False sample_rss new_state
              ''/incoming/foo_1.0_amd64.deb'' (Some ''main''))) = [] \<and>
   archive_files (snd (import_binary sample_env False sample_rss new_state
              ''/incoming/foo_1.0_amd64.deb'' (Some ''main''))) = [] \<and>
   version_memory (snd (import_binary sample_env False sample_rss new_state
              ''/incoming/foo_1.0_amd64.deb'' (Some ''main''))) (1, ''foo'') = None \<and>
   \<not> changes_pending (snd (import_binary sample_env False sample_rss new_state
              ''/incoming/foo_1.0_amd64.deb'' (Some ''main''))) 1"
proof -
  let ?deb = "''/incoming/foo_1.0_amd64.deb''"
  let ?res = "import_binary sample_env False sample_rss new_state ?deb (Some ''main'')"
  have arch: "architectures new_state = [''amd64'', ''all'']" by (simp add: sample_defs)
  from sample_binary_control[OF arch] obtain h where
    h: "binary_control new_state sample_deb = Inr h"
    and n: "bh_pkgname h = ''foo''" "bh_version h = ''1.0''" "bh_source_name h = ''foo''"
      "bh_source_version h = ''1.0''" "bh_architecture h = ''amd64''"
    and tf: "map_of (bh_tf h) = map_of (filter (\<lambda>kv. fst kv \<notin> {''Package'', ''Version'', ''Architecture'', ''Maintainer'', ''Installed-Size''}) sample_deb)"
    by blast
  have rp: "render_packages sample_env ?deb (fs new_state ?deb) = Inr sample_deb"
    and rc: "render_contents sample_env ?deb (fs new_state ?deb) = Inr [''usr/bin/foo'']"
    by (simp_all add: sample_defs)
  have pub: "published_source sample_rss new_state ''foo'' ''1.0'' = None"
    by (simp add: published_source_def sample_defs)
  have new: "new_queue_entry sample_rss new_state ''foo'' ''1.0'' = Inr (Some (1, 1, ''foo'', ''1.0''))"
    by (simp add: new_queue_entry_def one_or_none_def sample_defs)
  from pub new n have pub': "published_source sample_rss new_state (bh_source_name h) (bh_source_version h) = None"
    and new': "new_queue_entry sample_rss new_state (bh_source_name h) (bh_source_version h)
                 = Inr (Some (1, 1, ''foo'', ''1.0''))"
    by simp_all
  note inert = import_binary_new_is_inert[where keep = False and component_name = "Some ''main''",
      OF rp rc h pub' new']
  obtain af tf' where bf: "binary_file sample_env ?deb h (1, ''foo'', ''1.0'') = Inr (af, tf')"
    and afn: "af_fname af = ''pool/main/f/foo/foo_1.0_amd64.deb''"
    and vh: "verify_hashes sample_hashes (fs new_state) af ?deb = Inr ()"
    using n tf
    by (simp add: binary_file_def binary_pool_fname_def sample_defs stanza_pop_def
        stanza_pop_default_def and_then_def
        path_ext_def path_basename_def path_join_def deb_type_str_def Let_def verify_hashes_def
        hash_okay_def map_of_stanza_remove)
  have ah: "apt_hashes sample_env = sample_hashes" by (simp add: sample_env_def)
  have nq: "rss_new_queue_dir sample_rss = ''/archive-new''" by (simp add: sample_rss_def)
  have pj: "path_join ''/archive-new'' ''pool/main/f/foo/foo_1.0_amd64.deb''
              = ''/archive-new/pool/main/f/foo/foo_1.0_amd64.deb''"
    by (simp add: path_join_def)
  from inert bf vh afn ah nq pj have ok: "fst ?res = Inr ()" by simp
  with inert bf afn nq pj have placed: "fs (snd ?res) ''/archive-new/pool/main/f/foo/foo_1.0_amd64.deb''
                                    = fs new_state ?deb"
    by auto
  have src: "fs new_state ?deb = Some ''deb''" by (simp add: sample_defs)
  have tabs: "binary_packages new_state = []" "archive_files new_state = []"
    "version_memory new_state (1, ''foo'') = None" "\<not> changes_pending new_state 1"
    by (simp_all add: sample_defs)
  from inert have "binary_packages (snd ?res) = binary_packages new_state"
    "archive_files (snd ?res) = archive_files new_state"
    "version_memory (snd ?res) = version_memory new_state"
    "changes_pending (snd ?res) = changes_pending new_state"
    by simp_all
  with pub new ok placed src tabs show ?thesis by simp
qed

text \<open>
  C6 fails on the code. The frame holds (no table changes, see above), the placement does
  not: the name in the pool is joined from the name of the package, and a name that starts
  with a slash makes both joins return it. The source \<open>foo 1.0\<close> is in the NEW queue
  only; the binary package names itself \<open>/archive/pool/main/b/bar/bar\<close>; the import
  succeeds, and the file system afterwards is the one before with the uploaded file moved
  over the published file of \<open>bar\<close> in the pool: nothing is under the NEW-queue
  directory.
\<close>

theorem import_binary_new_leaves_queue:
  "published_source sample_rss crafted_state ''foo'' ''1.0'' = None \<and>
   new_queue_entry sample_rss crafted_state ''foo'' ''1.0'' = Inr (Some (1, 1, ''foo'', ''1.0'')) \<and>
   fs crafted_state ''/archive/pool/main/b/bar/bar_1.0_amd64.deb'' = Some ''old'' \<and>
   fst (import_binary sample_env False sample_rss crafted_state ''/incoming/bar_1.0_amd64.deb''
          (Some ''main'')) = Inr () \<and>
   fs (snd (import_binary sample_env False sample_rss crafted_state ''/incoming/bar_1.0_amd64.deb''
          (Some ''main'')))
     = (fs crafted_state)(''/archive/pool/main/b/bar/bar_1.0_amd64.deb'' \<mapsto> ''crafted'',
                          ''/incoming/bar_1.0_amd64.deb'' := None)"
  by (simp add: sample_defs source_defs binary_defs import_binary_def binary_checks_def
      py_index_def py_slice_def py_bound_def)

text \<open>
  C7. A binary import whose source name and version are neither a package of the suite nor
  in an entry of the NEW queue for the suite fails with the orphaned-binary error and leaves
  the state as it was, whatever hashes APT computes: the verification is not reached.
\<close>

theorem import_binary_orphaned:
  assumes "render_packages env deb_fname (fs st deb_fname) = Inr bin_tf"
    and "render_contents env deb_fname (fs st deb_fname) = Inr filelist_raw"
    and "binary_control st bin_tf = Inr h"
    and "published_source r st (bh_source_name h) (bh_source_version h) = None"
    and "(rss_suite_id r, rss_repo_id r, bh_source_name h, bh_source_version h) \<notin> set (queue_new st)"
  shows "\<forall>hs. import_binary (env\<lparr>apt_hashes := hs\<rparr>) keep r st deb_fname component_name
               = (Inl (OrphanedBinary (bh_pkgname h) (bh_version h)), st)"
  using assms new_queue_entry_none[OF assms(5)]
  by (simp add: import_binary_def binary_checks_def find_source_def)

text \<open>
  The theorem on the sample archive without a source package, with the hashes of the
  samples and with hashes that would not verify.
\<close>

theorem import_binary_orphaned_witness:
  "published_source sample_rss sample_state ''foo'' ''1.0'' = None \<and>
   queue_new sample_state = [] \<and>
   import_binary sample_env False sample_rss sample_state ''/incoming/foo_1.0_amd64.deb'' (Some ''main'')
     = (Inl (OrphanedBinary ''foo'' ''1.0''), sample_state) \<and>
   import_binary (sample_env\<lparr>apt_hashes := short_hashes\<rparr>) False sample_rss sample_state
       ''/incoming/foo_1.0_amd64.deb'' (Some ''main'')
     = (Inl (OrphanedBinary ''foo'' ''1.0''), sample_state)"
proof -
  have arch: "architectures sample_state = [''amd64'', ''all'']" by (simp add: sample_defs)
  from sample_binary_control[OF arch] obtain h where
    h: "binary_control sample_state sample_deb = Inr h"
    and n: "bh_pkgname h = ''foo''" "bh_version h = ''1.0''" "bh_source_name h = ''foo''"
      "bh_source_version h = ''1.0''"
    by blast
  have rp: "render_packages sample_env ''/incoming/foo_1.0_amd64.deb''
              (fs sample_state ''/incoming/foo_1.0_amd64.deb'') = Inr sample_deb"
    and rc: "render_contents sample_env ''/incoming/foo_1.0_amd64.deb''
              (fs sample_state ''/incoming/foo_1.0_amd64.deb'') = Inr [''usr/bin/foo'']"
    by (simp_all add: sample_env_def sample_state_def)
  have pub: "published_source sample_rss sample_state ''foo'' ''1.0'' = None"
    by (simp add: published_source_def sample_state_def sample_rss_def)
  have q: "queue_new sample_state = []" by (simp add: sample_state_def)
  from import_binary_orphaned[OF rp rc h, of sample_rss False "Some ''main''"] pub q n
  have all: "\<forall>hs. import_binary (sample_env\<lparr>apt_hashes := hs\<rparr>) False sample_rss sample_state
                 ''/incoming/foo_1.0_amd64.deb'' (Some ''main'')
               = (Inl (OrphanedBinary ''foo'' ''1.0''), sample_state)"
    by simp
  have same: "sample_env\<lparr>apt_hashes := sample_hashes\<rparr> = sample_env" by (simp add: sample_env_def)
  from all[rule_format, of sample_hashes] all[rule_format, of short_hashes] same pub q
  show ?thesis by simp
qed

section \<open>Properties of the upload handler\<close>

text \<open>
  C8 fails on the code. The upload is signed by the registered uploader, its signature is
  not weak, and it names one distribution, \<open>experimental\<close>, for which the repository has
  no suite: the query for the settings ends in \<^verbatim>\<open>NoResultFound\<close>, which leaves
  \<^verbatim>\<open>process_changes\<close> as an exception.
\<close>

theorem process_changes_unknown_suite_raises:
  "parse_changes sample_env ''/incoming/foo_1.0_exp.changes''
       (fs sample_state ''/incoming/foo_1.0_exp.changes'')
     = Inr (sample_changes\<lparr>ch_distributions := [''experimental'']\<rparr>) \<and>
   filter (\<lambda>u. ''ABCD'' \<in> set (up_pgp_fingerprints u)) (uploaders sample_state) = [sample_uploader] \<and>
   process_changes sample_env False 1 ''master'' sample_state ''/incoming/foo_1.0_exp.changes''
     = (Inl NoResultFound, sample_state)"
  by (simp add: sample_defs process_changes_def one_def one_or_none_def)

end
